theory Spec2Isabelle
  imports Complex_Main "HOL-Library.Word"
begin

section \<open>JavaScript numbers\<close>

text \<open>
  The program computes with JavaScript numbers (IEEE-754 doubles). A finite double is
  modelled by the real number it stands for, with exact arithmetic (no rounding, no
  overflow, no signed zero); the three special values are kept, because the program can
  produce them: \<open>0 / 0\<close> is \<open>NaN\<close>, and \<open>NaN\<close> passes through \<open>+\<close>, \<open>*\<close>,
  \<open>Math.min\<close>, \<open>Math.max\<close> and \<open>Math.floor\<close>.
  Numbers that the source only ever computes from finite values with guarded divisions
  (the sentiment scores) are plain reals; numbers that can be \<open>NaN\<close> are \<open>jsnum\<close>.
  Exact arithmetic decides which results are \<open>NaN\<close> and how results are ordered; the
  value of a floored product can depend on the rounding, and for the scaling resolver the
  rounding is written out in a section of its own.
\<close>

datatype jsnum = Num real | PosInf | NegInf | NaN

fun jsgn :: "jsnum \<Rightarrow> real" where
  "jsgn (Num x) = sgn x"
| "jsgn PosInf = 1"
| "jsgn NegInf = - 1"
| "jsgn NaN = 0"

definition inf_of_sign :: "real \<Rightarrow> jsnum" where
  "inf_of_sign s = (if s = 0 then NaN else if 0 < s then PosInf else NegInf)"

fun jadd :: "jsnum \<Rightarrow> jsnum \<Rightarrow> jsnum" where
  "jadd (Num a) (Num b) = Num (a + b)"
| "jadd NaN _ = NaN"
| "jadd _ NaN = NaN"
| "jadd PosInf NegInf = NaN"
| "jadd NegInf PosInf = NaN"
| "jadd PosInf _ = PosInf"
| "jadd _ PosInf = PosInf"
| "jadd NegInf _ = NegInf"
| "jadd _ NegInf = NegInf"

fun jneg :: "jsnum \<Rightarrow> jsnum" where
  "jneg (Num a) = Num (- a)"
| "jneg PosInf = NegInf"
| "jneg NegInf = PosInf"
| "jneg NaN = NaN"

definition jsub :: "jsnum \<Rightarrow> jsnum \<Rightarrow> jsnum" where
  "jsub a b = jadd a (jneg b)"

fun jmul :: "jsnum \<Rightarrow> jsnum \<Rightarrow> jsnum" where
  "jmul (Num a) (Num b) = Num (a * b)"
| "jmul NaN _ = NaN"
| "jmul _ NaN = NaN"
| "jmul a b = inf_of_sign (jsgn a * jsgn b)"

fun jdiv :: "jsnum \<Rightarrow> jsnum \<Rightarrow> jsnum" where
  "jdiv (Num a) (Num b) = (if b = 0 then inf_of_sign (sgn a) else Num (a / b))"
| "jdiv NaN _ = NaN"
| "jdiv _ NaN = NaN"
| "jdiv (Num a) _ = Num 0"
| "jdiv a (Num b) = inf_of_sign (jsgn a * (if b < 0 then - 1 else 1))"
| "jdiv _ _ = NaN"

text \<open>The comparisons \<open><=\<close> and \<open><\<close>: false as soon as one side is \<open>NaN\<close>.\<close>

fun jle :: "jsnum \<Rightarrow> jsnum \<Rightarrow> bool" where
  "jle (Num a) (Num b) = (a \<le> b)"
| "jle NaN _ = False"
| "jle _ NaN = False"
| "jle NegInf _ = True"
| "jle _ PosInf = True"
| "jle _ _ = False"

fun jlt :: "jsnum \<Rightarrow> jsnum \<Rightarrow> bool" where
  "jlt (Num a) (Num b) = (a < b)"
| "jlt NaN _ = False"
| "jlt _ NaN = False"
| "jlt PosInf _ = False"
| "jlt _ NegInf = False"
| "jlt _ _ = True"

fun isNaN :: "jsnum \<Rightarrow> bool" where
  "isNaN NaN = True"
| "isNaN _ = False"

text \<open>\<open>Math.min\<close>, \<open>Math.max\<close>, \<open>Math.floor\<close>: \<open>NaN\<close> when an argument is.\<close>

definition jmin :: "jsnum \<Rightarrow> jsnum \<Rightarrow> jsnum" where
  "jmin a b = (if isNaN a \<or> isNaN b then NaN else if jle a b then a else b)"

definition jmax :: "jsnum \<Rightarrow> jsnum \<Rightarrow> jsnum" where
  "jmax a b = (if isNaN a \<or> isNaN b then NaN else if jle a b then b else a)"

fun jfloor :: "jsnum \<Rightarrow> jsnum" where
  "jfloor (Num a) = Num (of_int \<lfloor>a\<rfloor>)"
| "jfloor x = x"

text \<open>\<open>a || b\<close> on numbers: \<open>0\<close> and \<open>NaN\<close> are falsy.\<close>

fun jor :: "jsnum \<Rightarrow> jsnum \<Rightarrow> jsnum" where
  "jor (Num a) b = (if a = 0 then b else Num a)"
| "jor NaN b = b"
| "jor a b = a"

section \<open>The scaling resolver (TextAnalyzer)\<close>

datatype ScalingType =
    micro_boost | micro_enhance | micro_standard
  | small_plus | small_standard | small_compress
  | medium_standard | medium_compress | medium_max
  | large_standard | large_compress | large_heavy
  | massive_standard | massive_compress | massive_max
  | epic_standard | epic_maximum

record Threshold =
  tmin :: nat
  tmax :: nat
  strategy :: ScalingType
  multiplier :: real

definition MICRO_TINY :: Threshold where
  "MICRO_TINY = \<lparr>tmin = 1, tmax = 3, strategy = micro_boost, multiplier = 3.0\<rparr>"

text \<open>\<open>SCALING_THRESHOLDS\<close>, in the order \<open>Object.entries\<close> enumerates it.\<close>

definition SCALING_THRESHOLDS :: "Threshold list" where
  "SCALING_THRESHOLDS =
    [MICRO_TINY,
     \<lparr>tmin = 4, tmax = 8, strategy = micro_enhance, multiplier = 2.2\<rparr>,
     \<lparr>tmin = 9, tmax = 15, strategy = micro_standard, multiplier = 1.8\<rparr>,
     \<lparr>tmin = 16, tmax = 30, strategy = small_plus, multiplier = 1.5\<rparr>,
     \<lparr>tmin = 31, tmax = 60, strategy = small_standard, multiplier = 1.2\<rparr>,
     \<lparr>tmin = 61, tmax = 100, strategy = small_compress, multiplier = 1.0\<rparr>,
     \<lparr>tmin = 101, tmax = 200, strategy = medium_standard, multiplier = 0.95\<rparr>,
     \<lparr>tmin = 201, tmax = 350, strategy = medium_compress, multiplier = 0.85\<rparr>,
     \<lparr>tmin = 351, tmax = 500, strategy = medium_max, multiplier = 0.75\<rparr>,
     \<lparr>tmin = 501, tmax = 800, strategy = large_standard, multiplier = 0.7\<rparr>,
     \<lparr>tmin = 801, tmax = 1200, strategy = large_compress, multiplier = 0.6\<rparr>,
     \<lparr>tmin = 1201, tmax = 2000, strategy = large_heavy, multiplier = 0.5\<rparr>,
     \<lparr>tmin = 2001, tmax = 3500, strategy = massive_standard, multiplier = 0.45\<rparr>,
     \<lparr>tmin = 3501, tmax = 5000, strategy = massive_compress, multiplier = 0.4\<rparr>,
     \<lparr>tmin = 5001, tmax = 7000, strategy = massive_max, multiplier = 0.35\<rparr>,
     \<lparr>tmin = 7001, tmax = 10000, strategy = epic_standard, multiplier = 0.3\<rparr>,
     \<lparr>tmin = 10001, tmax = 12500, strategy = epic_maximum, multiplier = 0.25\<rparr>]"

record ComplexityAnalysis =
  overallComplexity :: jsnum
  vocabularyDiversity :: jsnum
  sentenceComplexity :: jsnum
  conceptDensity :: jsnum
  emotionalComplexity :: jsnum

record ScalingStrategy =
  stype :: ScalingType
  smultiplier :: real
  nodeCount :: jsnum
  particleCount :: jsnum
  compressionLevel :: jsnum

text \<open>
  The loop of \<open>determineScalingStrategy\<close>: the first entry whose range holds the word
  count, and \<open>MICRO_TINY\<close> (the initial value of \<open>threshold\<close>) when none does.
\<close>

definition selectThreshold :: "nat \<Rightarrow> Threshold" where
  "selectThreshold wordCount =
     (case find (\<lambda>config. tmin config \<le> wordCount \<and> wordCount \<le> tmax config)
             SCALING_THRESHOLDS of
        Some config \<Rightarrow> config
      | None \<Rightarrow> MICRO_TINY)"

fun strategyMultipliers :: "ScalingType \<Rightarrow> real" where
  "strategyMultipliers micro_boost = 3.0"
| "strategyMultipliers micro_enhance = 2.2"
| "strategyMultipliers micro_standard = 1.8"
| "strategyMultipliers small_plus = 1.5"
| "strategyMultipliers small_standard = 1.2"
| "strategyMultipliers small_compress = 1.0"
| "strategyMultipliers medium_standard = 0.95"
| "strategyMultipliers medium_compress = 0.85"
| "strategyMultipliers medium_max = 0.75"
| "strategyMultipliers large_standard = 0.7"
| "strategyMultipliers large_compress = 0.6"
| "strategyMultipliers large_heavy = 0.5"
| "strategyMultipliers massive_standard = 0.45"
| "strategyMultipliers massive_compress = 0.4"
| "strategyMultipliers massive_max = 0.35"
| "strategyMultipliers epic_standard = 0.3"
| "strategyMultipliers epic_maximum = 0.25"

text \<open>The product before the clamp: \<open>rawNodeCount\<close> of \<open>calculateBaseNodeCount\<close>.\<close>

definition rawNodeCount :: "nat \<Rightarrow> ComplexityAnalysis \<Rightarrow> jsnum \<Rightarrow> ScalingType \<Rightarrow> jsnum" where
  "rawNodeCount wordCount complexity emotionIntensity strat =
     (let baseNodes = jmul (Num (log 2 (real wordCount + 1))) (Num 8);
          complexityBonus = jadd (Num 1) (jmul (overallComplexity complexity) (Num 1.5));
          emotionalBonus = jadd (Num 0.5) (jmul emotionIntensity (Num 1.5));
          strategyMultiplier = jor (Num (strategyMultipliers strat)) (Num 1.0)
      in jmul (jmul (jmul baseNodes complexityBonus) emotionalBonus) strategyMultiplier)"

definition calculateBaseNodeCount ::
  "nat \<Rightarrow> ComplexityAnalysis \<Rightarrow> jsnum \<Rightarrow> ScalingType \<Rightarrow> jsnum" where
  "calculateBaseNodeCount wordCount complexity emotionIntensity strat =
     jfloor (jmax (Num 8)
       (jmin (Num 700) (rawNodeCount wordCount complexity emotionIntensity strat)))"

fun strategyParticleMultipliers :: "ScalingType \<Rightarrow> real" where
  "strategyParticleMultipliers micro_boost = 1.2"
| "strategyParticleMultipliers micro_enhance = 1.1"
| "strategyParticleMultipliers micro_standard = 1.0"
| "strategyParticleMultipliers small_plus = 1.0"
| "strategyParticleMultipliers small_standard = 1.0"
| "strategyParticleMultipliers small_compress = 0.95"
| "strategyParticleMultipliers medium_standard = 0.9"
| "strategyParticleMultipliers medium_compress = 0.85"
| "strategyParticleMultipliers medium_max = 0.8"
| "strategyParticleMultipliers large_standard = 0.75"
| "strategyParticleMultipliers large_compress = 0.7"
| "strategyParticleMultipliers large_heavy = 0.65"
| "strategyParticleMultipliers massive_standard = 0.6"
| "strategyParticleMultipliers massive_compress = 0.55"
| "strategyParticleMultipliers massive_max = 0.5"
| "strategyParticleMultipliers epic_standard = 0.45"
| "strategyParticleMultipliers epic_maximum = 0.4"

definition calculateParticleCount :: "jsnum \<Rightarrow> ScalingType \<Rightarrow> jsnum" where
  "calculateParticleCount nodes strat =
     (let particlesPerNode =
            (if jle nodes (Num 100) then 75
             else if jle nodes (Num 300) then 60
             else if jle nodes (Num 500) then 50
             else 40);
          baseParticleCount = jmul nodes (Num particlesPerNode);
          strategyMultiplier = jor (Num (strategyParticleMultipliers strat)) (Num 1.0);
          finalParticleCount = jfloor (jmul baseParticleCount strategyMultiplier)
      in jmin (Num 35000) (jmax (Num 500) finalParticleCount))"

definition calculateCompressionLevel :: "nat \<Rightarrow> jsnum \<Rightarrow> jsnum" where
  "calculateCompressionLevel originalWordCount finalNodeCount =
     (if originalWordCount \<le> 50
      then jmax (Num 0) (jdiv (jsub (Num 50) finalNodeCount) (Num 50))
      else
        (let idealNodeCount = Num (min 100 (real originalWordCount * 0.5));
             compressionRatio = jsub (Num 1) (jdiv finalNodeCount idealNodeCount)
         in jmax (Num 0) (jmin (Num 1) compressionRatio)))"

text \<open>
  \<open>determineScalingStrategy\<close> reads \<open>sentiment.intensity\<close> only; the intensity is passed
  as such.
\<close>

definition determineScalingStrategy ::
  "nat \<Rightarrow> ComplexityAnalysis \<Rightarrow> jsnum \<Rightarrow> ScalingStrategy" where
  "determineScalingStrategy wordCount complexity intensity =
     (let threshold = selectThreshold wordCount;
          baseNodeCount =
            calculateBaseNodeCount wordCount complexity intensity (strategy threshold);
          particles = calculateParticleCount baseNodeCount (strategy threshold);
          compression = calculateCompressionLevel wordCount baseNodeCount
      in \<lparr>stype = strategy threshold,
          smultiplier = multiplier threshold,
          nodeCount = baseNodeCount,
          particleCount = particles,
          compressionLevel = compression\<rparr>)"

text \<open>
  The complexity scores of \<open>mockAnalysisResult\<close> in \<open>NodeSystem.test.ts\<close>, used as a
  concrete input below.
\<close>

definition mockComplexity :: ComplexityAnalysis where
  "mockComplexity =
     \<lparr>overallComplexity = Num 0.6, vocabularyDiversity = Num 0.7,
      sentenceComplexity = Num 0.5, conceptDensity = Num 0.8,
      emotionalComplexity = Num 0.4\<rparr>"

section \<open>The scaling resolver in double arithmetic\<close>

text \<open>
  The definitions above compute with exact reals. Where the value of a finite result
  matters, and not only its order or its being \<open>NaN\<close>, the rounding of double arithmetic
  has to be written out: \<open>Math.floor\<close> of a product just below an integer and of the
  rounded product differ by one. The functions below are the same code with every
  arithmetic result passed through a rounding function \<open>rd\<close> (for the program:
  round to nearest, ties to even, \<open>roundDouble\<close> below) and with \<open>Math.log2\<close> as a
  function \<open>lg2\<close> (the language leaves its accuracy to the implementation). The
  literals 1, 8, 0.5, 1.5, 50, 100, 500, 700 and 35000 and the particles per node are
  doubles; the multipliers of the tables are rounded when read. \<open>wordCount + 1\<close> is an
  integer below \<open>2^53\<close> and exact; no result here comes near the overflow threshold.
  With \<open>rd\<close> the identity and \<open>lg2 = log 2\<close> these are the definitions above.
\<close>

definition jround :: "(real \<Rightarrow> real) \<Rightarrow> jsnum \<Rightarrow> jsnum" where
  "jround rd x =
     (case x of Num r \<Rightarrow> Num (rd r) | PosInf \<Rightarrow> PosInf | NegInf \<Rightarrow> NegInf | NaN \<Rightarrow> NaN)"

definition fadd :: "(real \<Rightarrow> real) \<Rightarrow> jsnum \<Rightarrow> jsnum \<Rightarrow> jsnum" where
  "fadd rd a b = jround rd (jadd a b)"

definition fsub :: "(real \<Rightarrow> real) \<Rightarrow> jsnum \<Rightarrow> jsnum \<Rightarrow> jsnum" where
  "fsub rd a b = jround rd (jsub a b)"

definition fmul :: "(real \<Rightarrow> real) \<Rightarrow> jsnum \<Rightarrow> jsnum \<Rightarrow> jsnum" where
  "fmul rd a b = jround rd (jmul a b)"

definition fdiv :: "(real \<Rightarrow> real) \<Rightarrow> jsnum \<Rightarrow> jsnum \<Rightarrow> jsnum" where
  "fdiv rd a b = jround rd (jdiv a b)"

definition rawNodeCount_fl ::
  "(real \<Rightarrow> real) \<Rightarrow> (real \<Rightarrow> real) \<Rightarrow> nat \<Rightarrow> ComplexityAnalysis \<Rightarrow> jsnum \<Rightarrow> ScalingType
     \<Rightarrow> jsnum" where
  "rawNodeCount_fl rd lg2 wordCount complexity emotionIntensity strat =
     (let baseNodes = fmul rd (Num (lg2 (real wordCount + 1))) (Num 8);
          complexityBonus =
            fadd rd (Num 1) (fmul rd (overallComplexity complexity) (Num 1.5));
          emotionalBonus = fadd rd (Num 0.5) (fmul rd emotionIntensity (Num 1.5));
          strategyMultiplier = jor (Num (rd (strategyMultipliers strat))) (Num 1.0)
      in fmul rd (fmul rd (fmul rd baseNodes complexityBonus) emotionalBonus)
           strategyMultiplier)"

definition calculateBaseNodeCount_fl ::
  "(real \<Rightarrow> real) \<Rightarrow> (real \<Rightarrow> real) \<Rightarrow> nat \<Rightarrow> ComplexityAnalysis \<Rightarrow> jsnum \<Rightarrow> ScalingType
     \<Rightarrow> jsnum" where
  "calculateBaseNodeCount_fl rd lg2 wordCount complexity emotionIntensity strat =
     jfloor (jmax (Num 8)
       (jmin (Num 700) (rawNodeCount_fl rd lg2 wordCount complexity emotionIntensity strat)))"

definition calculateParticleCount_fl :: "(real \<Rightarrow> real) \<Rightarrow> jsnum \<Rightarrow> ScalingType \<Rightarrow> jsnum" where
  "calculateParticleCount_fl rd nodes strat =
     (let particlesPerNode =
            (if jle nodes (Num 100) then 75
             else if jle nodes (Num 300) then 60
             else if jle nodes (Num 500) then 50
             else 40);
          baseParticleCount = fmul rd nodes (Num particlesPerNode);
          strategyMultiplier = jor (Num (rd (strategyParticleMultipliers strat))) (Num 1.0);
          finalParticleCount = jfloor (fmul rd baseParticleCount strategyMultiplier)
      in jmin (Num 35000) (jmax (Num 500) finalParticleCount))"

definition calculateCompressionLevel_fl :: "(real \<Rightarrow> real) \<Rightarrow> nat \<Rightarrow> jsnum \<Rightarrow> jsnum" where
  "calculateCompressionLevel_fl rd originalWordCount finalNodeCount =
     (if originalWordCount \<le> 50
      then jmax (Num 0) (fdiv rd (fsub rd (Num 50) finalNodeCount) (Num 50))
      else
        (let idealNodeCount = jmin (Num 100) (fmul rd (Num (real originalWordCount)) (Num 0.5));
             compressionRatio = fsub rd (Num 1) (fdiv rd finalNodeCount idealNodeCount)
         in jmax (Num 0) (jmin (Num 1) compressionRatio)))"

definition determineScalingStrategy_fl ::
  "(real \<Rightarrow> real) \<Rightarrow> (real \<Rightarrow> real) \<Rightarrow> nat \<Rightarrow> ComplexityAnalysis \<Rightarrow> jsnum
     \<Rightarrow> ScalingStrategy" where
  "determineScalingStrategy_fl rd lg2 wordCount complexity intensity =
     (let threshold = selectThreshold wordCount;
          baseNodeCount =
            calculateBaseNodeCount_fl rd lg2 wordCount complexity intensity
              (strategy threshold);
          particles = calculateParticleCount_fl rd baseNodeCount (strategy threshold);
          compression = calculateCompressionLevel_fl rd wordCount baseNodeCount
      in \<lparr>stype = strategy threshold,
          smultiplier = rd (multiplier threshold),
          nodeCount = baseNodeCount,
          particleCount = particles,
          compressionLevel = compression\<rparr>)"

subsection \<open>Rounding to a double\<close>

text \<open>
  Round to nearest, ties to even, on 53 significant bits: \<open>scaleBinade\<close> doubles or
  halves the magnitude until it lies in \<open>[2^52, 2^53)\<close> (not below the exponent of the
  subnormal numbers, \<open>-1074\<close>), \<open>rne\<close> rounds it to an integer, and the result is scaled
  back. Magnitudes from \<open>2^1024\<close> on (which overflow) are outside the model.
\<close>

definition rne :: "real \<Rightarrow> int" where
  "rne q =
     (let f = \<lfloor>q\<rfloor>; d = q - of_int f
      in if d < 1 / 2 then f else if 1 / 2 < d then f + 1 else if even f then f else f + 1)"

fun scaleBinade :: "nat \<Rightarrow> real \<Rightarrow> int \<Rightarrow> real \<times> int" where
  "scaleBinade 0 m ex = (m, ex)"
| "scaleBinade (Suc fuel) m ex =
     (if 2 ^ 53 \<le> m then scaleBinade fuel (m / 2) (ex + 1)
      else if m < 2 ^ 52 \<and> - 1074 < ex then scaleBinade fuel (m * 2) (ex - 1)
      else (m, ex))"

definition pow2 :: "int \<Rightarrow> real" where
  "pow2 ex = (if 0 \<le> ex then 2 ^ nat ex else 1 / 2 ^ nat (- ex))"

definition roundDouble :: "real \<Rightarrow> real" where
  "roundDouble x =
     (if x = 0 then 0
      else
        (let (m, ex) = scaleBinade 2200 \<bar>x\<bar> 0
         in sgn x * of_int (rne m) * pow2 ex))"

section \<open>Texts and tokens\<close>

text \<open>
  A text is a JavaScript string whose UTF-16 code units are all below 256 (the Latin-1
  range), one \<open>char\<close> per code unit. On that range \<open>\s\<close> matches the code units
  9 to 13, 32 and 160, \<open>\w\<close> matches \<open>[A-Za-z0-9_]\<close>, and \<open>toLowerCase\<close> adds 32 to
  the code units of \<open>A-Z\<close> and of the upper-case letters 192 to 222 (215 excepted).
\<close>

definition charCodeAt :: "char \<Rightarrow> nat" where
  "charCodeAt c = of_char c"

definition isSpace :: "char \<Rightarrow> bool" where
  "isSpace c = (let n = charCodeAt c in (9 \<le> n \<and> n \<le> 13) \<or> n = 32 \<or> n = 160)"

definition isWordChar :: "char \<Rightarrow> bool" where
  "isWordChar c =
     (let n = charCodeAt c
      in (48 \<le> n \<and> n \<le> 57) \<or> (65 \<le> n \<and> n \<le> 90) \<or> n = 95 \<or> (97 \<le> n \<and> n \<le> 122))"

definition toLowerChar :: "char \<Rightarrow> char" where
  "toLowerChar c =
     (let n = charCodeAt c
      in if (65 \<le> n \<and> n \<le> 90) \<or> (192 \<le> n \<and> n \<le> 214) \<or> (216 \<le> n \<and> n \<le> 222)
         then char_of (n + 32) else c)"

definition toLowerCase :: "string \<Rightarrow> string" where
  "toLowerCase text = map toLowerChar text"

text \<open>
  \<open>split\<close> on a regular expression \<open>[...]+\<close> (as \<open>/\s+/\<close>): the pieces between the
  maximal runs of separator characters, the empty pieces at both ends included. The flag
  says that the scan is inside a run; \<open>cur\<close> is the current piece, reversed.
\<close>

fun splitRuns :: "(char \<Rightarrow> bool) \<Rightarrow> bool \<Rightarrow> string \<Rightarrow> string \<Rightarrow> string list" where
  "splitRuns sep inRun cur [] = [rev cur]"
| "splitRuns sep inRun cur (c # cs) =
     (if sep c
      then (if inRun then splitRuns sep True cur cs else rev cur # splitRuns sep True [] cs)
      else splitRuns sep False (c # cur) cs)"

definition splitOnSpaces :: "string \<Rightarrow> string list" where
  "splitOnSpaces text = splitRuns isSpace False [] text"

definition trim :: "string \<Rightarrow> string" where
  "trim text = rev (dropWhile isSpace (rev (dropWhile isSpace text)))"

text \<open>
  \<open>tokenizeText\<close> of \<open>SentimentAnalyzer\<close> and of \<open>ComplexityAnalyzer\<close> (the same code):
  lower case, every character outside \<open>\w\<close> and \<open>\s\<close> replaced by a blank, split, empty
  pieces dropped.
\<close>

definition tokenizeText :: "string \<Rightarrow> string list" where
  "tokenizeText text =
     filter (\<lambda>word. length word > 0)
       (splitOnSpaces
         (map (\<lambda>c. if isWordChar c \<or> isSpace c then c else CHR '' '') (toLowerCase text)))"

text \<open>\<open>tokenizeText\<close> of \<open>TextAnalyzer\<close>: trim, split, empty pieces dropped.\<close>

definition TextAnalyzer_tokenizeText :: "string \<Rightarrow> string list" where
  "TextAnalyzer_tokenizeText text =
     filter (\<lambda>word. length word > 0) (splitOnSpaces (trim text))"

text \<open>\<open>s.includes(t)\<close>, \<open>s.endsWith(t)\<close> and \<open>s.split(t).length - 1\<close> for a non-empty \<open>t\<close>
  (\<open>includes\<close> is written \<open>strIncludes\<close>).\<close>

definition startsWith :: "string \<Rightarrow> string \<Rightarrow> bool" where
  "startsWith s t = (take (length t) s = t)"

fun strIncludes :: "string \<Rightarrow> string \<Rightarrow> bool" where
  "strIncludes [] t = (t = [])"
| "strIncludes (c # cs) t = (startsWith (c # cs) t \<or> strIncludes cs t)"

definition endsWith :: "string \<Rightarrow> string \<Rightarrow> bool" where
  "endsWith s t = (length t \<le> length s \<and> drop (length s - length t) s = t)"

text \<open>
  The number of separators that \<open>split\<close> finds: occurrences of \<open>t\<close> from left to right,
  the scan resuming after each occurrence. \<open>skip\<close> counts the characters of the last
  occurrence still to pass.
\<close>

fun countSeparators :: "nat \<Rightarrow> string \<Rightarrow> string \<Rightarrow> nat" where
  "countSeparators skip [] t = 0"
| "countSeparators skip (c # cs) t =
     (if 0 < skip then countSeparators (skip - 1) cs t
      else if startsWith (c # cs) t then 1 + countSeparators (length t - 1) cs t
      else countSeparators 0 cs t)"

section \<open>The emotion scorer (SentimentAnalyzer)\<close>

datatype Emotion = Joy | Sadness | Anger | Fear | Surprise | Anticipation

record EmotionScores =
  joy :: real
  sadness :: real
  anger :: real
  fear :: real
  surprise :: real
  anticipation :: real

record DominantEmotion =
  emotion :: Emotion
  score :: real
  confidence :: real

record SentimentAnalysis =
  scores :: EmotionScores
  dominant :: DominantEmotion
  intensity :: real
  valence :: real
  arousal :: real

subsection \<open>The lexicons of \<open>initializeLexicons\<close>\<close>

definition joyWords :: "string list" where
  "joyWords =
    [''happy'', ''joy'', ''excited'', ''wonderful'', ''amazing'', ''brilliant'',
     ''delighted'', ''ecstatic'', ''joyful'', ''cheerful'', ''elated'',
     ''euphoric'', ''blissful'', ''content'', ''pleased'', ''satisfied'',
     ''thrilled'', ''overjoyed'', ''gleeful'', ''merry'', ''upbeat'',
     ''optimistic'', ''positive'', ''bright'', ''fantastic'', ''great'',
     ''excellent'', ''perfect'', ''beautiful'', ''love'', ''adore'', ''celebrate'',
     ''triumph'', ''victory'', ''success'', ''achievement'', ''accomplishment'',
     ''pride'', ''confident'', ''hope'', ''hopeful'', ''inspiring'', ''motivated'',
     ''energetic'', ''vibrant'', ''alive'']"

definition sadnessWords :: "string list" where
  "sadnessWords =
    [''sad'', ''depressed'', ''gloomy'', ''melancholy'', ''disappointed'',
     ''sorrowful'', ''grief'', ''heartbroken'', ''devastated'', ''dejected'',
     ''despondent'', ''downhearted'', ''miserable'', ''unhappy'', ''blue'',
     ''down'', ''low'', ''morose'', ''mournful'', ''woeful'', ''tearful'',
     ''crying'', ''weeping'', ''sobbing'', ''lonely'', ''isolated'', ''abandoned'',
     ''lost'', ''hopeless'', ''helpless'', ''despair'', ''anguish'', ''pain'',
     ''hurt'', ''suffering'', ''regret'', ''remorse'', ''guilt'', ''shame'',
     ''burden'', ''heavy'', ''dark'']"

definition angerWords :: "string list" where
  "angerWords =
    [''angry'', ''furious'', ''rage'', ''hostile'', ''irritated'', ''annoyed'',
     ''outraged'', ''mad'', ''livid'', ''enraged'', ''irate'', ''incensed'',
     ''wrathful'', ''fuming'', ''aggravated'', ''frustrated'', ''exasperated'',
     ''indignant'', ''resentful'', ''bitter'', ''hatred'', ''hate'', ''loathe'',
     ''despise'', ''disgusted'', ''revolted'', ''appalled'', ''offended'',
     ''insulted'', ''provoked'', ''triggered'', ''agitated'', ''upset'', ''pissed'',
     ''ticked'', ''steamed'', ''boiling'', ''seething'', ''explosive'']"

definition fearWords :: "string list" where
  "fearWords =
    [''afraid'', ''terrified'', ''anxious'', ''worried'', ''nervous'', ''scared'',
     ''frightened'', ''fearful'', ''panicked'', ''horrified'', ''petrified'',
     ''trembling'', ''shaking'', ''paranoid'', ''concerned'', ''uneasy'',
     ''apprehensive'', ''dreadful'', ''ominous'', ''threatening'', ''dangerous'',
     ''risky'', ''uncertain'', ''insecure'', ''vulnerable'', ''stressed'',
     ''tense'', ''overwhelmed'', ''panic'', ''terror'', ''horror'', ''nightmare'',
     ''phobia'', ''anxiety'', ''stress'', ''pressure'', ''burden'', ''threat'']"

definition surpriseWords :: "string list" where
  "surpriseWords =
    [''surprised'', ''shocked'', ''astonished'', ''amazed'', ''stunned'',
     ''startled'', ''bewildered'', ''perplexed'', ''confused'', ''puzzled'',
     ''baffled'', ''mystified'', ''unexpected'', ''sudden'', ''abrupt'',
     ''unforeseen'', ''remarkable'', ''extraordinary'', ''incredible'',
     ''unbelievable'', ''astounding'', ''mind-blowing'', ''wow'', ''whoa'',
     ''gasped'', ''speechless'', ''thunderstruck'', ''flabbergasted'',
     ''dumbfounded'']"

definition anticipationWords :: "string list" where
  "anticipationWords =
    [''excited'', ''eager'', ''hopeful'', ''optimistic'', ''expecting'',
     ''anticipating'', ''looking forward'', ''awaiting'', ''prepared'', ''ready'',
     ''planning'', ''future'', ''tomorrow'', ''soon'', ''upcoming'',
     ''approaching'', ''imminent'', ''pending'', ''prospect'', ''possibility'',
     ''potential'', ''opportunity'', ''chance'', ''maybe'', ''curious'',
     ''interested'', ''intrigued'', ''wondering'', ''expectant'']"

definition negations :: "string list" where
  "negations =
    [''not'', ''no'', ''never'', ''none'', ''nothing'', ''nobody'', ''nowhere'',
     ''neither'', ''nor'', ''without'', ''barely'', ''hardly'', ''scarcely'',
     ''seldom'']"

text \<open>
  \<open>emotionLexicon\<close> is a \<open>Map\<close> filled by \<open>set\<close>, list after list (joy, sadness, anger,
  fear, surprise, anticipation): a word of two lists keeps the entry set last. Hence the
  lookup tries the lists from the last one to the first.
\<close>

definition emotionLexicon :: "string \<Rightarrow> (Emotion \<times> real) option" where
  "emotionLexicon word =
     (if word \<in> set anticipationWords then Some (Anticipation, 0.6)
      else if word \<in> set surpriseWords then Some (Surprise, 0.7)
      else if word \<in> set fearWords then Some (Fear, 0.8)
      else if word \<in> set angerWords then Some (Anger, 0.8)
      else if word \<in> set sadnessWords then Some (Sadness, 0.8)
      else if word \<in> set joyWords then Some (Joy, 0.8)
      else None)"

definition negationWords :: "string \<Rightarrow> bool" where
  "negationWords word = (word \<in> set negations)"

definition intensifiers :: "(string \<times> real) list" where
  "intensifiers =
    [(''very'', 1.5), (''extremely'', 2.0), (''incredibly'', 1.8), (''absolutely'', 1.7),
     (''completely'', 1.6), (''totally'', 1.5), (''really'', 1.3), (''quite'', 1.2),
     (''rather'', 1.1), (''somewhat'', 0.8), (''slightly'', 0.6), (''barely'', 0.4),
     (''utterly'', 1.9), (''exceptionally'', 1.8), (''remarkably'', 1.6),
     (''particularly'', 1.4)]"

definition intensifierWords :: "string \<Rightarrow> real option" where
  "intensifierWords = map_of intensifiers"

subsection \<open>\<open>calculateEmotionScores\<close>\<close>

definition zeroScores :: EmotionScores where
  "zeroScores = \<lparr>joy = 0, sadness = 0, anger = 0, fear = 0, surprise = 0, anticipation = 0\<rparr>"

fun getScore :: "Emotion \<Rightarrow> EmotionScores \<Rightarrow> real" where
  "getScore Joy s = joy s"
| "getScore Sadness s = sadness s"
| "getScore Anger s = anger s"
| "getScore Fear s = fear s"
| "getScore Surprise s = surprise s"
| "getScore Anticipation s = anticipation s"

fun addScore :: "Emotion \<Rightarrow> real \<Rightarrow> EmotionScores \<Rightarrow> EmotionScores" where
  "addScore Joy x s = s\<lparr>joy := joy s + x\<rparr>"
| "addScore Sadness x s = s\<lparr>sadness := sadness s + x\<rparr>"
| "addScore Anger x s = s\<lparr>anger := anger s + x\<rparr>"
| "addScore Fear x s = s\<lparr>fear := fear s + x\<rparr>"
| "addScore Surprise x s = s\<lparr>surprise := surprise s + x\<rparr>"
| "addScore Anticipation x s = s\<lparr>anticipation := anticipation s + x\<rparr>"

text \<open>The variables of the loop over the words.\<close>

record ScanState =
  rawScores :: EmotionScores
  totalEmotionalWords :: nat
  negationActive :: bool
  currentIntensifier :: real

definition initialScan :: ScanState where
  "initialScan =
     \<lparr>rawScores = zeroScores, totalEmotionalWords = 0, negationActive = False,
      currentIntensifier = 1.0\<rparr>"

text \<open>
  One iteration. A negation word and an intensifier word \<open>continue\<close>; any other word
  resets the intensifier at the end of the iteration. The \<open>|| 1.0\<close> after the lookup of
  the intensifier replaces a zero multiplier.
\<close>

definition scanWord :: "string \<Rightarrow> ScanState \<Rightarrow> ScanState" where
  "scanWord word st =
     (if negationWords word then st\<lparr>negationActive := True\<rparr>
      else case intensifierWords word of
        Some m \<Rightarrow> st\<lparr>currentIntensifier := (if m = 0 then 1.0 else m)\<rparr>
      | None \<Rightarrow>
         (case emotionLexicon word of
            Some (em, base) \<Rightarrow>
              (let x = base * currentIntensifier st;
                   x' = (if negationActive st then x * (- 0.5) else x)
               in \<lparr>rawScores = addScore em x' (rawScores st),
                   totalEmotionalWords = totalEmotionalWords st + 1,
                   negationActive = False,
                   currentIntensifier = 1.0\<rparr>)
          | None \<Rightarrow> st\<lparr>currentIntensifier := 1.0\<rparr>))"

fun scanWords :: "string list \<Rightarrow> ScanState \<Rightarrow> ScanState" where
  "scanWords [] st = st"
| "scanWords (word # ws) st = scanWords ws (scanWord word st)"

definition normalizeScores :: "nat \<Rightarrow> EmotionScores \<Rightarrow> EmotionScores" where
  "normalizeScores n s =
     \<lparr>joy = max 0 (joy s / real n),
      sadness = max 0 (sadness s / real n),
      anger = max 0 (anger s / real n),
      fear = max 0 (fear s / real n),
      surprise = max 0 (surprise s / real n),
      anticipation = max 0 (anticipation s / real n)\<rparr>"

definition calculateEmotionScores :: "string list \<Rightarrow> EmotionScores" where
  "calculateEmotionScores ws =
     (let st = scanWords ws initialScan
      in if totalEmotionalWords st > 0
         then normalizeScores (totalEmotionalWords st) (rawScores st)
         else rawScores st)"

subsection \<open>Emoji influence, dominant emotion, dimensions, intensity\<close>

definition applyEmojiInfluence :: "EmotionScores \<Rightarrow> real \<Rightarrow> EmotionScores" where
  "applyEmojiInfluence s influence =
     (if influence > 0
      then s\<lparr>joy := min 1 (joy s + influence * 0.3),
             anticipation := min 1 (anticipation s + influence * 0.2)\<rparr>
      else if influence < 0
      then s\<lparr>sadness := min 1 (sadness s + \<bar>influence\<bar> * 0.3),
             fear := min 1 (fear s + \<bar>influence\<bar> * 0.2)\<rparr>
      else s)"

definition scoreEntries :: "EmotionScores \<Rightarrow> (Emotion \<times> real) list" where
  "scoreEntries s =
     [(Joy, joy s), (Sadness, sadness s), (Anger, anger s), (Fear, fear s),
      (Surprise, surprise s), (Anticipation, anticipation s)]"

definition findDominantEmotion :: "EmotionScores \<Rightarrow> DominantEmotion" where
  "findDominantEmotion s =
     (let (dominantEmotion, maxScore) =
            fold (\<lambda>(em, sc) (d, m). if sc > m then (em, sc) else (d, m))
              (scoreEntries s) (Joy, 0);
          sortedScores = rev (sort (map snd (scoreEntries s)));
          s0 = sortedScores ! 0;
          s1 = sortedScores ! 1;
          conf = (s0 - s1) / (if s0 = 0 then 1 else s0)
      in \<lparr>emotion = dominantEmotion, score = maxScore, confidence = min 1 conf\<rparr>)"

definition calculateDimensions :: "EmotionScores \<Rightarrow> real \<times> real" where
  "calculateDimensions s =
     (let positive = joy s + anticipation s + surprise s * 0.5;
          negative = sadness s + anger s + fear s;
          val = (positive - negative) / max (positive + negative) 1;
          highArousal = anger s + fear s + surprise s + joy s * 0.7;
          lowArousal = sadness s + anticipation s * 0.3;
          aro = highArousal / max (highArousal + lowArousal) 1
      in (max (- 1) (min 1 val), max 0 (min 1 aro)))"

definition calculateIntensity :: "EmotionScores \<Rightarrow> DominantEmotion \<Rightarrow> real" where
  "calculateIntensity s dominantE =
     (let totalEmotionalContent = sum_list (map snd (scoreEntries s));
          dominantWeight = score dominantE * 2
      in min 1 ((totalEmotionalContent + dominantWeight) / 3))"

text \<open>
  \<open>SentimentAnalyzer.analyze\<close>. The emoji influence is applied under the guard
  \<open>emojiInfluence > 0\<close>.
\<close>

definition analyze :: "string \<Rightarrow> real \<Rightarrow> SentimentAnalysis" where
  "analyze text emojiInfluence =
     (let ws = tokenizeText text;
          emotionScores = calculateEmotionScores ws;
          emotionScores' =
            (if emojiInfluence > 0 then applyEmojiInfluence emotionScores emojiInfluence
             else emotionScores);
          dominantE = findDominantEmotion emotionScores';
          (val, aro) = calculateDimensions emotionScores'
      in \<lparr>scores = emotionScores', dominant = dominantE,
          intensity = calculateIntensity emotionScores' dominantE,
          valence = val, arousal = aro\<rparr>)"

section \<open>The complexity scorer (ComplexityAnalyzer)\<close>

definition commonWordList :: "string list" where
  "commonWordList =
    [''the'', ''a'', ''to'', ''and'', ''of'', ''in'', ''i'', ''you'', ''it'',
     ''have'', ''be'', ''on'', ''for'', ''do'', ''say'', ''this'', ''they'', ''is'',
     ''an'', ''at'', ''but'', ''we'', ''his'', ''from'', ''that'', ''not'', ''by'',
     ''she'', ''or'', ''as'', ''what'', ''go'', ''their'', ''can'', ''who'',
     ''get'', ''if'', ''would'', ''her'', ''all'', ''my'', ''make'', ''about'',
     ''know'', ''will'', ''as'', ''up'', ''one'', ''time'', ''has'', ''been'',
     ''there'', ''year'', ''so'', ''think'', ''when'', ''which'', ''them'',
     ''some'', ''me'', ''people'', ''take'', ''out'', ''into'', ''just'', ''see'',
     ''him'', ''your'', ''come'', ''could'', ''now'', ''than'', ''like'', ''other'',
     ''how'', ''then'', ''its'', ''our'', ''two'', ''more'', ''these'', ''want'',
     ''way'', ''look'', ''first'', ''also'', ''new'', ''because'', ''day'',
     ''more'', ''use'', ''no'', ''man'', ''find'', ''here'', ''thing'', ''give'',
     ''many'', ''well'', ''only'', ''those'', ''tell'', ''very'', ''her'', ''even'',
     ''back'', ''any'', ''good'', ''woman'', ''through'', ''us'', ''life'',
     ''child'', ''work'', ''down'', ''may'', ''after'', ''should'', ''call'',
     ''world'', ''over'', ''school'', ''still'', ''try'', ''in'', ''as'', ''last'',
     ''ask'', ''need'', ''too'', ''feel'', ''three'', ''when'', ''state'',
     ''never'', ''become'', ''between'', ''high'', ''really'', ''something'',
     ''most'', ''another'', ''much'', ''family'', ''own'', ''out'', ''leave'']"

definition complexWordList :: "string list" where
  "complexWordList =
    [''sophisticated'', ''implementation'', ''consideration'', ''fundamental'',
     ''comprehensive'', ''significance'', ''extraordinary'', ''revolutionary'',
     ''unprecedented'', ''phenomenal'', ''magnificent'', ''consequently'',
     ''nevertheless'', ''furthermore'', ''elaborate'', ''intricate'',
     ''meticulous'', ''substantial'', ''considerable'', ''remarkable'',
     ''exceptional'', ''outstanding'', ''distinguished'', ''prominent'',
     ''inevitable'', ''essential'', ''critical'', ''crucial'', ''significant'',
     ''substantial'', ''extensive'', ''comprehensive'', ''thorough'', ''elaborate'',
     ''sophisticated'', ''advanced'', ''complex'', ''intricate'', ''detailed'',
     ''specific'', ''particular'', ''individual'', ''unique'', ''distinct'',
     ''separate'', ''independent'', ''autonomous'', ''contemporary'', ''modern'',
     ''current'', ''recent'', ''latest'', ''updated'', ''revised'', ''modified'',
     ''alternative'', ''optional'', ''additional'', ''supplementary'',
     ''complementary'', ''corresponding'', ''equivalent'', ''similar'',
     ''comparable'', ''analogous'', ''parallel'', ''related'', ''associated'',
     ''connected'', ''linked'', ''attached'', ''combined'', ''integrated'',
     ''unified'', ''consolidated'']"

definition subordinateIndicators :: "string list" where
  "subordinateIndicators =
    [''because'', ''since'', ''although'', ''while'', ''whereas'', ''if'',
     ''unless'', ''until'', ''before'', ''after'', ''when'', ''where'', ''which'',
     ''that'', ''who'', ''whom'']"

definition abstractIndicators :: "string list" where
  "abstractIndicators =
    [''concept'', ''idea'', ''theory'', ''principle'', ''philosophy'', ''belief'',
     ''thought'', ''notion'', ''understanding'', ''knowledge'', ''wisdom'',
     ''meaning'', ''purpose'', ''significance'', ''importance'', ''value'',
     ''quality'', ''characteristic'', ''nature'', ''essence'', ''reality'',
     ''truth'', ''fact'', ''assumption'', ''hypothesis'', ''conclusion'',
     ''inference'', ''implication'', ''consequence'']"

definition technicalIndicators :: "string list" where
  "technicalIndicators =
    [''system'', ''process'', ''method'', ''approach'', ''technique'',
     ''procedure'', ''mechanism'', ''function'', ''operation'', ''performance'',
     ''efficiency'', ''optimization'', ''analysis'', ''evaluation'', ''assessment'',
     ''measurement'', ''calculation'', ''computation'', ''algorithm'',
     ''structure'', ''framework'', ''architecture'', ''design'', ''implementation'',
     ''development'']"

definition emotionWordList :: "string list" where
  "emotionWordList =
    [''happy'', ''sad'', ''angry'', ''fear'', ''joy'', ''love'', ''hate'',
     ''excited'', ''nervous'', ''calm'', ''stressed'', ''peaceful'', ''worried'',
     ''confident'', ''anxious'', ''hopeful'', ''disappointed'', ''frustrated'',
     ''content'', ''lonely'', ''grateful'', ''proud'', ''embarrassed'', ''ashamed'',
     ''guilty'', ''relieved'', ''surprised'', ''shocked'', ''amazed'', ''confused'',
     ''curious'', ''interested'', ''bored'', ''tired'', ''energetic'']"

definition complexEmotions :: "string list" where
  "complexEmotions =
    [''melancholy'', ''euphoric'', ''despondent'', ''elated'', ''apprehensive'',
     ''contemplative'', ''nostalgic'', ''bittersweet'', ''ambivalent'',
     ''conflicted'', ''overwhelmed'', ''underwhelmed'', ''disillusioned'',
     ''enlightened'', ''empowered'', ''vulnerable'', ''resilient'', ''determined'']"

definition intensifierList :: "string list" where
  "intensifierList =
    [''extremely'', ''incredibly'', ''absolutely'', ''completely'', ''utterly'',
     ''deeply'', ''profoundly'', ''intensely'', ''overwhelmingly'',
     ''exceptionally'', ''remarkably'']"

definition nuanceIndicators :: "string list" where
  "nuanceIndicators =
    [''but'', ''however'', ''although'', ''despite'', ''nevertheless'', ''yet'',
     ''still'', ''on the other hand'', ''at the same time'', ''mixed feelings'',
     ''torn between'']"

definition commonWords :: "string \<Rightarrow> bool" where
  "commonWords w = (w \<in> set commonWordList)"

definition complexWords :: "string \<Rightarrow> bool" where
  "complexWords w = (w \<in> set complexWordList)"

definition splitIntoSentences :: "string \<Rightarrow> string list" where
  "splitIntoSentences text =
     filter (\<lambda>sentence. length sentence > 0)
       (map trim (splitRuns (\<lambda>c. c = CHR ''.'' \<or> c = CHR ''!'' \<or> c = CHR ''?'') False [] text))"

text \<open>
  The three scores below return 0 on an empty list before they divide; their divisors
  are positive otherwise, and their values are finite.
\<close>

definition calculateVocabularyDiversity :: "string list \<Rightarrow> jsnum" where
  "calculateVocabularyDiversity ws =
     (if length ws = 0 then Num 0
      else
        (let uniqueWords = remdups ws;
             typeTokenRatio = real (length uniqueWords) / real (length ws);
             sophisticatedCount =
               length (filter (\<lambda>w. complexWords w \<or> length w > 8) uniqueWords);
             commonCount =
               length (filter (\<lambda>w. \<not> (complexWords w \<or> length w > 8) \<and> commonWords w)
                 uniqueWords);
             sophisticatedRatio = real sophisticatedCount / real (length uniqueWords);
             commonRatio = real commonCount / real (length uniqueWords);
             diversityScore =
               typeTokenRatio * 0.6 + sophisticatedRatio * 0.3 + (1 - commonRatio) * 0.1
         in Num (min 1 (diversityScore * 2))))"

definition countChar :: "char \<Rightarrow> string \<Rightarrow> nat" where
  "countChar c s = length (filter (\<lambda>d. d = c) s)"

definition oneSentenceComplexity :: "string \<Rightarrow> real" where
  "oneSentenceComplexity sentence =
     (let sentenceWords = filter (\<lambda>w. length w > 0) (splitOnSpaces sentence);
          wordCount = length sentenceWords;
          lengthComplexity =
            (if wordCount \<le> 10 then 0.2
             else if wordCount \<le> 20 then 0.5
             else if wordCount \<le> 30 then 0.8
             else 1.0);
          commaCount = countChar (CHR '','') sentence;
          semicolonCount = countChar (CHR '';'') sentence;
          colonCount = countChar (CHR '':'') sentence;
          punctuationComplexity =
            min 1 (real commaCount * 0.1 + real semicolonCount * 0.2 + real colonCount * 0.15);
          subordinateCount =
            fold (\<lambda>indicator n. n + countSeparators 0 (toLowerCase sentence) indicator)
              subordinateIndicators 0;
          subordinateComplexity = min 1 (real subordinateCount * 0.3)
      in lengthComplexity * 0.4 + punctuationComplexity * 0.3 + subordinateComplexity * 0.3)"

definition calculateSentenceComplexity :: "string list \<Rightarrow> jsnum" where
  "calculateSentenceComplexity sentences =
     (if length sentences = 0 then Num 0
      else
        (let totalComplexity = fold (\<lambda>sentence t. t + oneSentenceComplexity sentence) sentences 0
         in Num (totalComplexity / real (length sentences))))"

definition anyEndsWith :: "string \<Rightarrow> string list \<Rightarrow> bool" where
  "anyEndsWith w sufs = list_ex (endsWith w) sufs"

definition calculateConceptDensity :: "string list \<Rightarrow> jsnum" where
  "calculateConceptDensity ws =
     (if length ws = 0 then Num 0
      else
        (let abstractConcepts =
               length (filter (\<lambda>w. list_ex (strIncludes w) abstractIndicators
                          \<or> anyEndsWith w [''ness'', ''ity'', ''ism'']) ws);
             technicalTerms =
               length (filter (\<lambda>w. list_ex (strIncludes w) technicalIndicators
                          \<or> anyEndsWith w [''tion'', ''sion'', ''ment'']) ws);
             actionWords = length (filter (\<lambda>w. anyEndsWith w [''ing'', ''ed'', ''en'']) ws);
             descriptiveWords =
               length (filter (\<lambda>w. anyEndsWith w
                          [''ly'', ''ful'', ''less'', ''ous'', ''ive'', ''able'']) ws);
             n = real (length ws);
             weightedDensity =
               (real abstractConcepts / n) * 0.4 + (real technicalTerms / n) * 0.3
               + (real actionWords / n) * 0.2 + (real descriptiveWords / n) * 0.1
         in Num (min 1 (weightedDensity * 3))))"

text \<open>
  \<open>calculateEmotionalComplexity\<close> divides by \<open>words.length\<close> with no test for an empty
  list: the quotients are JavaScript divisions.
\<close>

definition calculateEmotionalComplexity :: "string \<Rightarrow> string list \<Rightarrow> jsnum" where
  "calculateEmotionalComplexity text ws =
     (let simpleEmotions = length (filter (\<lambda>w. w \<in> set emotionWordList) ws);
          complexEmotionCount = length (filter (\<lambda>w. w \<in> set complexEmotions) ws);
          intensifierCount = length (filter (\<lambda>w. w \<in> set intensifierList) ws);
          emotionalNuance =
            fold (\<lambda>indicator x. if strIncludes (toLowerCase text) indicator then x + 0.2 else x)
              nuanceIndicators (0::real);
          totalEmotionalWords = simpleEmotions + complexEmotionCount;
          n = Num (real (length ws));
          emotionalDensity = jdiv (Num (real totalEmotionalWords)) n;
          complexityScore =
            jadd (jadd (jadd (jmul emotionalDensity (Num 0.3))
                             (jmul (jdiv (Num (real complexEmotionCount)) n) (Num 0.4)))
                       (jmul (jdiv (Num (real intensifierCount)) n) (Num 0.2)))
                 (Num (min 1 emotionalNuance * 0.1))
      in jmin (Num 1) (jmul complexityScore (Num 4)))"

definition ComplexityAnalyzer_analyze :: "string \<Rightarrow> ComplexityAnalysis" where
  "ComplexityAnalyzer_analyze text =
     (let ws = tokenizeText text;
          sentences = splitIntoSentences text;
          vocabulary = calculateVocabularyDiversity ws;
          sentence = calculateSentenceComplexity sentences;
          density = calculateConceptDensity ws;
          emotional = calculateEmotionalComplexity text ws;
          overall =
            jadd (jadd (jadd (jmul vocabulary (Num 0.3)) (jmul sentence (Num 0.3)))
                       (jmul density (Num 0.25)))
                 (jmul emotional (Num 0.15))
      in \<lparr>overallComplexity = jmin (Num 1) overall,
          vocabularyDiversity = vocabulary,
          sentenceComplexity = sentence,
          conceptDensity = density,
          emotionalComplexity = emotional\<rparr>)"

section \<open>The analysis pipeline (TextAnalyzer)\<close>

datatype ConceptCategory =
  Cat_emotion | Cat_time | Cat_people | Cat_places | Cat_actions | Cat_abstract | Cat_objects

record Concept =
  word :: string
  category :: ConceptCategory
  relevance :: real
  frequency :: nat
  position :: "nat list"
  connections :: "string list"

datatype RelationshipType = Rel_semantic | Rel_emotional | Rel_temporal | Rel_contextual

record SemanticEdge =
  edge_id :: string
  edge_source :: string
  edge_target :: string
  weight :: real
  relationship :: RelationshipType

record EmojiData =
  emoji :: string
  emoji_position :: nat
  emoji_emotion :: Emotion
  emoji_intensity :: real

text \<open>
  The fields of \<open>AnalysisResult\<close> that the scaling resolver, the structure generator and
  the cache read; \<open>edges\<close> stands for \<open>semanticGraph.edges\<close>, in the order of the \<open>Map\<close>.
\<close>

record AnalysisResult =
  words :: "string list"
  sentiment :: SentimentAnalysis
  concepts :: "Concept list"
  edges :: "SemanticEdge list"
  complexity :: ComplexityAnalysis
  scalingStrategy :: ScalingStrategy
  emojiInfluence :: real
  timestamp :: int

text \<open>
  \<open>extractEmojiData\<close> matches code points from U+2600 on only; a text of code units
  below 256 holds none.
\<close>

definition extractEmojiData :: "string \<Rightarrow> EmojiData list" where
  "extractEmojiData text = []"

fun getEmotionPolarity :: "Emotion \<Rightarrow> real" where
  "getEmotionPolarity Joy = 1.0"
| "getEmotionPolarity Anticipation = 0.5"
| "getEmotionPolarity Surprise = 0.2"
| "getEmotionPolarity Sadness = - 0.8"
| "getEmotionPolarity Anger = - 0.9"
| "getEmotionPolarity Fear = - 0.7"

definition calculateEmojiInfluence :: "EmojiData list \<Rightarrow> real" where
  "calculateEmojiInfluence emojiData =
     (if length emojiData = 0 then 0
      else fold (\<lambda>e t. t + getEmotionPolarity (emoji_emotion e) * emoji_intensity e) emojiData 0
           / real (length emojiData))"

definition analyzeSentiment :: "string \<Rightarrow> SentimentAnalysis" where
  "analyzeSentiment text = analyze text (calculateEmojiInfluence (extractEmojiData text))"

text \<open>
  The body of \<open>TextAnalyzer.analyze\<close> after the cache lookup. The concept extractor
  (\<open>extract\<close>, \<open>buildSemanticGraph\<close>) is a parameter: no property below depends on what it
  returns. \<open>now\<close> is the reading of the clock stored as \<open>timestamp\<close>.
\<close>

definition analyzeFresh ::
  "(string \<Rightarrow> Concept list) \<Rightarrow> (Concept list \<Rightarrow> SemanticEdge list) \<Rightarrow> int \<Rightarrow> string
     \<Rightarrow> AnalysisResult" where
  "analyzeFresh extract buildSemanticGraph now text =
     (let ws = TextAnalyzer_tokenizeText text;
          emojiData = extractEmojiData text;
          sent = analyzeSentiment text;
          cs = extract text;
          cx = ComplexityAnalyzer_analyze text;
          graph = buildSemanticGraph cs;
          influence = calculateEmojiInfluence emojiData;
          strat = determineScalingStrategy (length ws) cx (Num (intensity sent))
      in \<lparr>words = ws, sentiment = sent, concepts = cs, edges = graph, complexity = cx,
          scalingStrategy = strat, emojiInfluence = influence, timestamp = now\<rparr>)"

subsection \<open>The cache\<close>

text \<open>
  \<open>hashText\<close>: \<open>hash << 5\<close> and \<open>hash & hash\<close> work on 32-bit integers, so each step is
  \<open>31 * hash + char\<close> in 32-bit arithmetic; \<open>toString(36)\<close> writes the signed value.
\<close>

definition hashStep :: "32 word \<Rightarrow> char \<Rightarrow> 32 word" where
  "hashStep h c = (push_bit 5 h - h) + of_nat (charCodeAt c)"

definition hashValue :: "string \<Rightarrow> 32 word" where
  "hashValue text = fold (\<lambda>c h. hashStep h c) text 0"

definition digit36 :: "nat \<Rightarrow> char" where
  "digit36 d = ''0123456789abcdefghijklmnopqrstuvwxyz'' ! d"

function digits36 :: "nat \<Rightarrow> string" where
  "digits36 n = (if n < 36 then [digit36 n] else digits36 (n div 36) @ [digit36 (n mod 36)])"
  by pat_completeness auto
termination
  by (relation "measure (\<lambda>n. n)") auto

definition toString36 :: "int \<Rightarrow> string" where
  "toString36 i = (if i < 0 then CHR ''-'' # digits36 (nat (- i)) else digits36 (nat i))"

definition hashText :: "string \<Rightarrow> string" where
  "hashText text = toString36 (sint (hashValue text))"

text \<open>
  \<open>analysisCache\<close> is a \<open>Map\<close> from keys to results, modelled by the list of its entries
  in insertion order.
\<close>

type_synonym Cache = "(string \<times> AnalysisResult) list"

fun mapSet :: "Cache \<Rightarrow> string \<Rightarrow> AnalysisResult \<Rightarrow> Cache" where
  "mapSet [] k v = [(k, v)]"
| "mapSet ((k', v') # rest) k v =
     (if k' = k then (k, v) # rest else (k', v') # mapSet rest k v)"

text \<open>
  \<open>cleanupCache\<close>: entries older than ten minutes go; above 100 entries the 50 most
  recent ones stay (the sort is stable). \<open>now\<close> is the clock read by the cleanup.
\<close>

definition cleanupCache :: "int \<Rightarrow> Cache \<Rightarrow> Cache" where
  "cleanupCache now cache =
     (let maxAge = 10 * 60 * 1000;
          cutoffTime = now - maxAge;
          kept = filter (\<lambda>(key, result). \<not> timestamp result < cutoffTime) cache
      in if length kept > 100
         then take 50 (sort_key (\<lambda>(key, result). - timestamp result) kept)
         else kept)"

text \<open>
  \<open>TextAnalyzer.analyze\<close>, with the cache passed in and returned. \<open>tstamp\<close> and \<open>tclean\<close>
  are the clock readings of the timestamp and of the cleanup.
\<close>

definition TextAnalyzer_analyze ::
  "(string \<Rightarrow> Concept list) \<Rightarrow> (Concept list \<Rightarrow> SemanticEdge list) \<Rightarrow> int \<Rightarrow> int
     \<Rightarrow> string \<Rightarrow> bool \<Rightarrow> Cache \<Rightarrow> AnalysisResult \<times> Cache" where
  "TextAnalyzer_analyze extract buildSemanticGraph tstamp tclean text useCache cache =
     (let textHash = hashText text in
      case (if useCache then map_of cache textHash else None) of
        Some cached \<Rightarrow> (cached, cache)
      | None \<Rightarrow>
          (let result = analyzeFresh extract buildSemanticGraph tstamp text
           in (result,
               if useCache then cleanupCache tclean (mapSet cache textHash result)
               else cache)))"

section \<open>The structure generator (NodeSystem)\<close>

datatype NodeType = NEmotion | NConcept | NSynthetic | NTemporal | NSocial

text \<open>
  A node: its id, type, synthetic flag and importance, and the word and layer of its
  \<open>data\<close>. The visual attributes (position, colour, size), the activations and the
  relevance are left out: no property below reads them.
\<close>

record Node =
  node_id :: string
  node_type :: NodeType
  synthetic :: bool
  importance :: real
  data_word :: string
  layer :: nat

datatype ConnectionType = Conn_semantic | Conn_emotional | Conn_synthetic | Conn_temporal

record Connection =
  conn_id :: string
  source :: string
  target :: string
  conn_weight :: real
  conn_type :: ConnectionType
  active :: bool
  flow :: real

text \<open>
  \<open>Array.prototype.slice\<close>: an index is truncated towards zero (\<open>NaN\<close> gives 0), counted
  from the end when negative, and clamped to the length.
\<close>

definition relIndex :: "nat \<Rightarrow> jsnum \<Rightarrow> nat" where
  "relIndex len x =
     (case x of
        Num r \<Rightarrow>
          (let i = (if r < 0 then \<lceil>r\<rceil> else \<lfloor>r\<rfloor>)
           in if i < 0 then nat (int len + i) else min (nat i) len)
      | PosInf \<Rightarrow> len
      | NegInf \<Rightarrow> 0
      | NaN \<Rightarrow> 0)"

definition slice :: "'a list \<Rightarrow> jsnum \<Rightarrow> jsnum \<Rightarrow> 'a list" where
  "slice xs start end =
     (let k = relIndex (length xs) start;
          final = relIndex (length xs) end
      in take (final - k) (drop k xs))"

definition sliceFrom :: "'a list \<Rightarrow> jsnum \<Rightarrow> 'a list" where
  "sliceFrom xs start = drop (relIndex (length xs) start) xs"

record NodeDistribution =
  primary :: jsnum
  secondary :: jsnum
  tertiary :: jsnum
  environmental :: jsnum

definition calculateNodeDistribution :: "jsnum \<Rightarrow> NodeDistribution" where
  "calculateNodeDistribution totalNodes =
     \<lparr>primary = jfloor (jmul totalNodes (Num 0.3)),
      secondary = jfloor (jmul totalNodes (Num 0.4)),
      tertiary = jfloor (jmul totalNodes (Num 0.2)),
      environmental = jfloor (jmul totalNodes (Num 0.1))\<rparr>"

text \<open>\<open>layerMap[category] || 1\<close>: the layer 0 of the map is falsy, so it becomes 1.\<close>

fun getLayerForCategory :: "ConceptCategory \<Rightarrow> nat" where
  "getLayerForCategory Cat_emotion = 1"
| "getLayerForCategory Cat_people = 1"
| "getLayerForCategory Cat_time = 1"
| "getLayerForCategory Cat_actions = 1"
| "getLayerForCategory Cat_places = 1"
| "getLayerForCategory Cat_abstract = 2"
| "getLayerForCategory Cat_objects = 2"

fun emotionName :: "Emotion \<Rightarrow> string" where
  "emotionName Joy = ''joy''"
| "emotionName Sadness = ''sadness''"
| "emotionName Anger = ''anger''"
| "emotionName Fear = ''fear''"
| "emotionName Surprise = ''surprise''"
| "emotionName Anticipation = ''anticipation''"

text \<open>
  The ids end in a random suffix (\<open>Math.random().toString(36).substr(2, 9)\<close>); the
  suffix is an argument of the constructors. The generator takes the random source as
  two functions: \<open>suffix k\<close> is the suffix drawn for the \<open>k\<close>-th node created, \<open>rnd i\<close>
  the value of \<open>Math.random()\<close> behind the importance of the \<open>i\<close>-th synthetic node.
\<close>

definition createNodeFromConcept :: "Concept \<Rightarrow> NodeType \<Rightarrow> real \<Rightarrow> string \<Rightarrow> Node" where
  "createNodeFromConcept concept nodeType imp suffix =
     \<lparr>node_id = ''concept_'' @ word concept @ ''_'' @ suffix,
      node_type = nodeType,
      synthetic = False,
      importance = imp,
      data_word = word concept,
      layer = getLayerForCategory (category concept)\<rparr>"

definition createEmotionNode :: "SentimentAnalysis \<Rightarrow> real \<Rightarrow> string \<Rightarrow> Node" where
  "createEmotionNode sent imp suffix =
     \<lparr>node_id = ''emotion_'' @ emotionName (emotion (dominant sent)) @ ''_'' @ suffix,
      node_type = NEmotion,
      synthetic = False,
      importance = imp,
      data_word = emotionName (emotion (dominant sent)),
      layer = 0\<rparr>"

definition digit10 :: "nat \<Rightarrow> char" where
  "digit10 d = ''0123456789'' ! d"

function digits10 :: "nat \<Rightarrow> string" where
  "digits10 n = (if n < 10 then [digit10 n] else digits10 (n div 10) @ [digit10 (n mod 10)])"
  by pat_completeness auto
termination
  by (relation "measure (\<lambda>n. n)") auto

definition createSyntheticNode :: "nat \<Rightarrow> string \<Rightarrow> real \<Rightarrow> Node" where
  "createSyntheticNode i suffix r =
     \<lparr>node_id = ''synthetic_'' @ digits10 i @ ''_'' @ suffix,
      node_type = NSynthetic,
      synthetic = True,
      importance = 0.2 + r * 0.3,
      data_word = ''synthetic_'' @ digits10 i,
      layer = 2\<rparr>"

text \<open>
  \<open>generateSyntheticNodes\<close>: the loop \<open>for (i = 0; i < count; i++)\<close> pushes one node per
  round. It makes \<open>\<lceil>count\<rceil>\<close> rounds for a finite positive \<open>count\<close>, none when
  \<open>i < count\<close> is false at once (\<open>NaN\<close> included), and does not end for an infinite
  \<open>count\<close>: the result is \<open>None\<close> then. \<open>offset\<close> is the number of nodes created before.
\<close>

definition generateSyntheticNodes ::
  "jsnum \<Rightarrow> nat \<Rightarrow> (nat \<Rightarrow> string) \<Rightarrow> (nat \<Rightarrow> real) \<Rightarrow> Node list option" where
  "generateSyntheticNodes count offset suffix rnd =
     (case count of
        PosInf \<Rightarrow> None
      | Num r \<Rightarrow>
          Some (map (\<lambda>i. createSyntheticNode i (suffix (offset + i)) (rnd i)) [0..<nat \<lceil>r\<rceil>])
      | NegInf \<Rightarrow> Some []
      | NaN \<Rightarrow> Some [])"

text \<open>
  The nodes of a slice of concepts: importance from \<open>high\<close> down by \<open>taper\<close> along the slice
  (\<open>high - (index / length) * taper\<close>).
\<close>

definition conceptNodes ::
  "Concept list \<Rightarrow> real \<Rightarrow> real \<Rightarrow> nat \<Rightarrow> (nat \<Rightarrow> string) \<Rightarrow> Node list" where
  "conceptNodes cs high taper offset suffix =
     map (\<lambda>(index, concept).
            createNodeFromConcept concept NConcept
              (high - (real index / real (length cs)) * taper) (suffix (offset + index)))
       (enumerate 0 cs)"

text \<open>
  \<open>generateNodes\<close>, in two parts. First the nodes pushed before the synthetic ones: the
  primary concepts, the emotion node when the confidence is above 0.3, the secondary
  concepts. \<open>sort\<close> orders \<open>analysisResult.concepts\<close> in place (stable, by decreasing
  relevance), so the secondary slice is cut from the sorted list too.
\<close>

definition conceptAndEmotionNodes :: "AnalysisResult \<Rightarrow> (nat \<Rightarrow> string) \<Rightarrow> Node list" where
  "conceptAndEmotionNodes analysisResult suffix =
     (let targetNodeCount = nodeCount (scalingStrategy analysisResult);
          distribution = calculateNodeDistribution targetNodeCount;
          sorted = sort_key (\<lambda>c. - relevance c) (concepts analysisResult);
          primaryConcepts = slice sorted (Num 0) (primary distribution);
          nodes1 = conceptNodes primaryConcepts 1.0 0.3 0 suffix;
          nodes2 = nodes1 @
            (if confidence (dominant (sentiment analysisResult)) > 0.3
             then [createEmotionNode (sentiment analysisResult) 0.9 (suffix (length nodes1))]
             else []);
          secondaryConcepts =
            slice (sliceFrom sorted (primary distribution)) (Num 0) (secondary distribution)
      in nodes2 @ conceptNodes secondaryConcepts 0.7 0.2 (length nodes2) suffix)"

text \<open>
  Then the synthetic nodes when \<open>remainingCount > 0\<close>, and the final
  \<open>nodes.slice(0, targetNodeCount)\<close>.
\<close>

definition generateNodes ::
  "AnalysisResult \<Rightarrow> (nat \<Rightarrow> string) \<Rightarrow> (nat \<Rightarrow> real) \<Rightarrow> Node list option" where
  "generateNodes analysisResult suffix rnd =
     (let targetNodeCount = nodeCount (scalingStrategy analysisResult);
          nodes = conceptAndEmotionNodes analysisResult suffix;
          remainingCount = jsub targetNodeCount (Num (real (length nodes)))
      in if jlt (Num 0) remainingCount
         then (case generateSyntheticNodes remainingCount (length nodes) suffix rnd of
                 None \<Rightarrow> None
               | Some syntheticNodes \<Rightarrow>
                   Some (slice (nodes @ syntheticNodes) (Num 0) targetNodeCount))
         else Some (slice nodes (Num 0) targetNodeCount))"

definition connectionOfEdge :: "Node list \<Rightarrow> SemanticEdge \<Rightarrow> Connection list" where
  "connectionOfEdge nodes edge =
     (case (find (\<lambda>n. data_word n = edge_source edge) nodes,
            find (\<lambda>n. data_word n = edge_target edge) nodes) of
        (Some sourceNode, Some targetNode) \<Rightarrow>
          [\<lparr>conn_id = ''conn_'' @ node_id sourceNode @ ''_'' @ node_id targetNode,
            source = node_id sourceNode,
            target = node_id targetNode,
            conn_weight = weight edge,
            conn_type =
              (if relationship edge = Rel_semantic then Conn_semantic else Conn_emotional),
            active = (weight edge > 0.3),
            flow = weight edge\<rparr>]
      | _ \<Rightarrow> [])"

definition generateConnections :: "AnalysisResult \<Rightarrow> Node list \<Rightarrow> Connection list" where
  "generateConnections analysisResult nodes =
     concat (map (connectionOfEdge nodes) (edges analysisResult))"

text \<open>
  The node and connection lists of \<open>generateVisualization\<close> (the 3D objects and the
  positions belong to the renderer).
\<close>

definition generateVisualization ::
  "AnalysisResult \<Rightarrow> (nat \<Rightarrow> string) \<Rightarrow> (nat \<Rightarrow> real) \<Rightarrow> (Node list \<times> Connection list) option"
  where
  "generateVisualization analysisResult suffix rnd =
     (case generateNodes analysisResult suffix rnd of
        None \<Rightarrow> None
      | Some nodes \<Rightarrow> Some (nodes, generateConnections analysisResult nodes))"

text \<open>
  \<open>mockAnalysisResult\<close> of \<open>NodeSystem.test.ts\<close> (its timestamp, the clock of the test
  run, is set to 0; the graph nodes and clusters are not read by the generator).
\<close>

definition mockAnalysisResult :: AnalysisResult where
  "mockAnalysisResult =
     \<lparr>words = [''romeo'', ''juliet'', ''love'', ''tragedy'', ''death''],
      sentiment =
        \<lparr>scores = \<lparr>joy = 0.3, sadness = 0.8, anger = 0.2, fear = 0.4, surprise = 0.1,
                    anticipation = 0.6\<rparr>,
         dominant = \<lparr>emotion = Sadness, score = 0.8, confidence = 0.85\<rparr>,
         intensity = 0.7, valence = - 0.3, arousal = 0.6\<rparr>,
      concepts =
        [\<lparr>word = ''love'', category = Cat_emotion, relevance = 0.9, frequency = 3,
          position = [0, 5, 10], connections = [''romeo'', ''juliet'']\<rparr>,
         \<lparr>word = ''romeo'', category = Cat_people, relevance = 0.8, frequency = 2,
          position = [0, 15], connections = [''love'', ''juliet'']\<rparr>,
         \<lparr>word = ''juliet'', category = Cat_people, relevance = 0.8, frequency = 2,
          position = [1, 20], connections = [''love'', ''romeo'']\<rparr>],
      edges =
        [\<lparr>edge_id = ''love-romeo'', edge_source = ''love'', edge_target = ''romeo'',
          weight = 0.7, relationship = Rel_semantic\<rparr>],
      complexity = mockComplexity,
      scalingStrategy =
        \<lparr>stype = small_standard, smultiplier = 1.2, nodeCount = Num 8,
         particleCount = Num 50, compressionLevel = Num 0.1\<rparr>,
      emojiInfluence = 0,
      timestamp = 0\<rparr>"

section \<open>Properties of the scaling resolver\<close>

lemma jmin_Num [simp]: "jmin (Num a) (Num b) = Num (min a b)"
  by (simp add: jmin_def min_def)

lemma jmax_Num [simp]: "jmax (Num a) (Num b) = Num (max a b)"
  by (simp add: jmax_def max_def)

lemma selectThreshold_in_table: "selectThreshold W \<in> set SCALING_THRESHOLDS"
proof (cases "find (\<lambda>config. tmin config \<le> W \<and> W \<le> tmax config) SCALING_THRESHOLDS")
  case None
  then show ?thesis by (simp add: selectThreshold_def SCALING_THRESHOLDS_def)
next
  case (Some t)
  then have "t \<in> set SCALING_THRESHOLDS"
    by (auto simp: find_Some_iff)
  with Some show ?thesis by (simp add: selectThreshold_def)
qed

text \<open>
  The multiplier table inside \<open>calculateBaseNodeCount\<close> repeats the multipliers of
  \<open>SCALING_THRESHOLDS\<close>, and none is zero, so the \<open>|| 1.0\<close> never applies.
\<close>

lemma table_multipliers:
  "t \<in> set SCALING_THRESHOLDS \<Longrightarrow>
     strategyMultipliers (strategy t) = multiplier t \<and> 0 < multiplier t"
  by (auto simp: SCALING_THRESHOLDS_def MICRO_TINY_def)

lemma selectThreshold_range_all:
  "list_all (\<lambda>t. tmin t \<le> W \<and> W \<le> tmax t \<longrightarrow> selectThreshold W = t) SCALING_THRESHOLDS"
  by (simp add: SCALING_THRESHOLDS_def MICRO_TINY_def selectThreshold_def)

lemma selectThreshold_range:
  assumes "t \<in> set SCALING_THRESHOLDS" "tmin t \<le> W" "W \<le> tmax t"
  shows "selectThreshold W = t"
  using selectThreshold_range_all [of W] assms by (simp add: list_all_iff)

lemma selectThreshold_beyond: "12500 < W \<Longrightarrow> selectThreshold W = MICRO_TINY"
  by (simp add: selectThreshold_def SCALING_THRESHOLDS_def MICRO_TINY_def)

lemma rawNodeCount_Num:
  assumes "overallComplexity cx = Num c" "strategyMultipliers s \<noteq> 0"
  shows "rawNodeCount W cx (Num e) s =
           Num (log 2 (real W + 1) * 8 * (1 + c * 1.5) * (0.5 + e * 1.5) * strategyMultipliers s)"
  using assms by (simp add: rawNodeCount_def)

lemma calculateBaseNodeCount_Num:
  assumes "overallComplexity cx = Num c" "strategyMultipliers s \<noteq> 0"
  shows "calculateBaseNodeCount W cx (Num e) s =
           Num (of_int \<lfloor>max 8 (min 700
             (log 2 (real W + 1) * 8 * (1 + c * 1.5) * (0.5 + e * 1.5) * strategyMultipliers s))\<rfloor>)"
  using assms by (simp add: calculateBaseNodeCount_def rawNodeCount_Num)

lemma floor_clamp_bounds:
  fixes r :: real
  shows "8 \<le> \<lfloor>max 8 (min 700 r)\<rfloor> \<and> \<lfloor>max 8 (min 700 r)\<rfloor> \<le> 700"
proof
  have "(8::real) \<le> max 8 (min 700 r)" by simp
  then show "8 \<le> \<lfloor>max 8 (min 700 r)\<rfloor>" by (simp add: le_floor_iff)
  have "max 8 (min 700 r) \<le> 700" by simp
  then have "\<lfloor>max 8 (min 700 r)\<rfloor> \<le> \<lfloor>700::real\<rfloor>" by (rule floor_mono)
  then show "\<lfloor>max 8 (min 700 r)\<rfloor> \<le> 700" by simp
qed

lemma calculateParticleCount_Num:
  "\<exists>p. calculateParticleCount (Num n) s = Num (of_int p) \<and> 500 \<le> p \<and> p \<le> 35000"
proof -
  have nz: "strategyParticleMultipliers s \<noteq> 0" by (cases s) simp_all
  define ppn :: real
    where "ppn = (if n \<le> 100 then 75 else if n \<le> 300 then 60 else if n \<le> 500 then 50 else 40)"
  define fp where "fp = \<lfloor>n * ppn * strategyParticleMultipliers s\<rfloor>"
  have "calculateParticleCount (Num n) s = Num (min 35000 (max 500 (of_int fp)))"
    using nz by (simp add: calculateParticleCount_def ppn_def fp_def Let_def)
  also have "min (35000::real) (max 500 (of_int fp)) = of_int (min 35000 (max 500 fp))"
    by (simp add: min_def max_def)
  finally show ?thesis by (intro exI [of _ "min 35000 (max 500 fp)"]) simp
qed

lemma raw_mono:
  assumes "0 \<le> c" "0 \<le> e" "overallComplexity cx = Num c"
    and "t \<in> set SCALING_THRESHOLDS" "W1 \<le> W2"
  shows "jle (rawNodeCount W1 cx (Num e) (strategy t)) (rawNodeCount W2 cx (Num e) (strategy t))"
proof -
  have m: "strategyMultipliers (strategy t) = multiplier t" "0 < multiplier t"
    using table_multipliers [OF assms(4)] by simp_all
  have lg: "log 2 (real W1 + 1) \<le> log 2 (real W2 + 1)"
    using assms(5) by simp
  define k where "k = 8 * (1 + c * 1.5) * (0.5 + e * 1.5) * multiplier t"
  have k: "0 \<le> k"
    unfolding k_def using assms(1,2) m(2) by simp
  have "log 2 (real W1 + 1) * k \<le> log 2 (real W2 + 1) * k"
    using lg k by (rule mult_right_mono)
  then have "log 2 (real W1 + 1) * 8 * (1 + c * 1.5) * (0.5 + e * 1.5) * multiplier t
      \<le> log 2 (real W2 + 1) * 8 * (1 + c * 1.5) * (0.5 + e * 1.5) * multiplier t"
    by (simp add: k_def mult.assoc)
  then show ?thesis
    using m assms(3) by (simp add: rawNodeCount_Num)
qed

lemma determineScalingStrategy_beyond_table:
  assumes "12500 < W"
  shows "selectThreshold W = MICRO_TINY
         \<and> stype (determineScalingStrategy W cx e) = micro_boost
         \<and> smultiplier (determineScalingStrategy W cx e) = 3
         \<and> nodeCount (determineScalingStrategy W cx e) = calculateBaseNodeCount W cx e micro_boost
         \<and> particleCount (determineScalingStrategy W cx e)
             = calculateParticleCount (calculateBaseNodeCount W cx e micro_boost) micro_boost"
  using assms
  by (simp add: determineScalingStrategy_def selectThreshold_beyond MICRO_TINY_def Let_def)

text \<open>
  Claim C5. For every word count above 12,500 the resolver is to select the tier with the
  lowest multiplier, \<open>epic_maximum\<close> (multiplier 0.25), and produce that tier's output.
  The code does not: no range of the table holds such a count, the loop leaves
  \<open>threshold\<close> at its initial value \<open>MICRO_TINY\<close>, and the strategy is \<open>micro_boost\<close> with
  the highest multiplier 3.0, the tier that \<open>types/index.ts\<close> describes as
  ``(1-15 words) - High enhancement for tiny texts''; the chain of tiers in
  \<open>ALGORITHM_IMPLEMENTATION_GUIDE.md\<close> ends in an \<open>else\<close> with the lowest multiplier.
  At 12,500 words the result is \<open>epic_maximum\<close> with multiplier 0.25, one word later
  it is \<open>micro_boost\<close> with 3.0:
\<close>

theorem beyond_top_bound_not_epic_maximum:
  "stype (determineScalingStrategy 12501 mockComplexity (Num 0.7)) = micro_boost
   \<and> stype (determineScalingStrategy 12501 mockComplexity (Num 0.7)) \<noteq> epic_maximum
   \<and> smultiplier (determineScalingStrategy 12501 mockComplexity (Num 0.7)) = 3
   \<and> smultiplier (determineScalingStrategy 12501 mockComplexity (Num 0.7)) \<noteq> 0.25
   \<and> stype (determineScalingStrategy 12500 mockComplexity (Num 0.7)) = epic_maximum
   \<and> smultiplier (determineScalingStrategy 12500 mockComplexity (Num 0.7)) = 0.25"
  by (simp add: determineScalingStrategy_def selectThreshold_def SCALING_THRESHOLDS_def
      MICRO_TINY_def Let_def)

text \<open>
  Claim C7. For fixed overall complexity and emotion intensity in \<open>[0,1]\<close> and a tier of
  the table, two word counts \<open>W1 \<le> W2\<close> within the tier's range both select that tier,
  and the raw node count (before the clamp) at \<open>W1\<close> is at most the one at \<open>W2\<close>.
\<close>

theorem raw_node_count_monotone_in_tier:
  assumes "0 \<le> c" "c \<le> 1" "0 \<le> e" "e \<le> 1" "overallComplexity cx = Num c"
    and "t \<in> set SCALING_THRESHOLDS" "tmin t \<le> W1" "W1 \<le> W2" "W2 \<le> tmax t"
  shows "selectThreshold W1 = t \<and> selectThreshold W2 = t
         \<and> jle (rawNodeCount W1 cx (Num e) (strategy t)) (rawNodeCount W2 cx (Num e) (strategy t))"
proof -
  have "jle (rawNodeCount W1 cx (Num e) (strategy t)) (rawNodeCount W2 cx (Num e) (strategy t))"
    using assms by (intro raw_mono [of c e cx t W1 W2]) simp_all
  moreover have "selectThreshold W1 = t"
    using assms(6,7,8,9) by (intro selectThreshold_range) simp_all
  moreover have "selectThreshold W2 = t"
    using assms(6,7,8,9) by (intro selectThreshold_range) simp_all
  ultimately show ?thesis by simp
qed

theorem raw_node_count_monotone_in_tier_witness:
  "(0::real) \<le> 0.6 \<and> (0.6::real) \<le> 1 \<and> (0::real) \<le> 0.7 \<and> (0.7::real) \<le> 1
   \<and> overallComplexity mockComplexity = Num 0.6
   \<and> MICRO_TINY \<in> set SCALING_THRESHOLDS
   \<and> tmin MICRO_TINY \<le> 1 \<and> (1::nat) \<le> 3 \<and> 3 \<le> tmax MICRO_TINY
   \<and> selectThreshold 1 = MICRO_TINY \<and> selectThreshold 3 = MICRO_TINY
   \<and> jle (rawNodeCount 1 mockComplexity (Num 0.7) micro_boost)
          (rawNodeCount 3 mockComplexity (Num 0.7) micro_boost)"
proof -
  have cx: "overallComplexity mockComplexity = Num 0.6" by (simp add: mockComplexity_def)
  have mem: "MICRO_TINY \<in> set SCALING_THRESHOLDS" by (simp add: SCALING_THRESHOLDS_def)
  have rng: "tmin MICRO_TINY \<le> 1" "3 \<le> tmax MICRO_TINY" "strategy MICRO_TINY = micro_boost"
    by (simp_all add: MICRO_TINY_def)
  show ?thesis
    using raw_node_count_monotone_in_tier [of "0.6" "0.7" mockComplexity MICRO_TINY 1 3] cx mem rng
    by simp
qed

section \<open>The scaling resolver in double arithmetic: properties\<close>

lemma jround_Num [simp]: "jround rd (Num r) = Num (rd r)"
  by (simp add: jround_def)

lemma jround_NaN [simp]: "jround rd NaN = NaN"
  by (simp add: jround_def)

lemma jround_id [simp]: "jround (\<lambda>x. x) a = a"
  by (cases a) (simp_all add: jround_def)

text \<open>Without rounding, and with the real logarithm, this is the resolver of the first section.\<close>

lemma exact_arithmetic_instance:
  "determineScalingStrategy_fl (\<lambda>x. x) (log 2) W cx e = determineScalingStrategy W cx e"
  by (simp add: determineScalingStrategy_fl_def determineScalingStrategy_def
      calculateBaseNodeCount_fl_def calculateBaseNodeCount_def rawNodeCount_fl_def
      rawNodeCount_def calculateParticleCount_fl_def calculateParticleCount_def
      calculateCompressionLevel_fl_def calculateCompressionLevel_def
      fadd_def fsub_def fmul_def fdiv_def Let_def)

text \<open>
  Every word count from 1 to 12,500 lies in the range of a tier; a word count in no range
  leaves the initial value.
\<close>

lemma table_covers:
  assumes "1 \<le> W" "W \<le> 12500"
  shows "\<exists>t\<in>set SCALING_THRESHOLDS. tmin t \<le> W \<and> W \<le> tmax t"
proof -
  have "list_ex (\<lambda>t. tmin t \<le> W \<and> W \<le> tmax t) SCALING_THRESHOLDS"
    using assms by (simp add: SCALING_THRESHOLDS_def MICRO_TINY_def cong: disj_cong)
  then show ?thesis by (simp add: list_ex_iff)
qed

lemma selectThreshold_default:
  assumes "\<forall>t\<in>set SCALING_THRESHOLDS. \<not> (tmin t \<le> W \<and> W \<le> tmax t)"
  shows "selectThreshold W = MICRO_TINY"
proof -
  have "find (\<lambda>config. tmin config \<le> W \<and> W \<le> tmax config) SCALING_THRESHOLDS = None"
    using assms by (simp add: find_None_iff)
  then show ?thesis by (simp add: selectThreshold_def)
qed

lemma calculateBaseNodeCount_fl_Num:
  assumes "overallComplexity cx = Num c" "rd (strategyMultipliers s) \<noteq> 0"
  shows "calculateBaseNodeCount_fl rd lg2 W cx (Num e) s =
           Num (of_int \<lfloor>max 8 (min 700
             (rd (rd (rd (rd (lg2 (real W + 1) * 8) * rd (1 + rd (c * 1.5)))
                       * rd (0.5 + rd (e * 1.5)))
                  * rd (strategyMultipliers s))))\<rfloor>)"
  using assms
  by (simp add: calculateBaseNodeCount_fl_def rawNodeCount_fl_def fadd_def fmul_def Let_def)

lemma calculateParticleCount_fl_bounds:
  "\<exists>p. calculateParticleCount_fl rd (Num n) s = Num (of_int p) \<and> 500 \<le> p \<and> p \<le> 35000"
proof -
  obtain k where k: "jor (Num (rd (strategyParticleMultipliers s))) (Num 1.0) = Num k"
    by (cases "rd (strategyParticleMultipliers s) = 0") simp_all
  define ppn :: real
    where "ppn = (if n \<le> 100 then 75 else if n \<le> 300 then 60 else if n \<le> 500 then 50 else 40)"
  define fp where "fp = \<lfloor>rd (rd (n * ppn) * k)\<rfloor>"
  have "calculateParticleCount_fl rd (Num n) s = Num (min 35000 (max 500 (of_int fp)))"
    using k by (simp add: calculateParticleCount_fl_def fmul_def ppn_def fp_def Let_def)
  also have "min (35000::real) (max 500 (of_int fp)) = of_int (min 35000 (max 500 fp))"
    by (simp add: min_def max_def)
  finally show ?thesis by (intro exI [of _ "min 35000 (max 500 fp)"]) simp
qed

subsection \<open>Evaluating \<open>roundDouble\<close>\<close>

text \<open>
  A positive number that \<open>k\<close> doublings bring into \<open>[2^52, 2^53)\<close> is rounded there, to
  an integer, and scaled back.
\<close>

lemma scaleBinade_up:
  "2 ^ 52 \<le> m * 2 ^ k \<Longrightarrow> m * 2 ^ k < 2 ^ 53 \<Longrightarrow> k \<le> fuel \<Longrightarrow> int k - 1074 \<le> ex
     \<Longrightarrow> scaleBinade fuel m ex = (m * 2 ^ k, ex - int k)"
proof (induction k arbitrary: m ex fuel)
  case 0
  then show ?case by (cases fuel) simp_all
next
  case (Suc k)
  from Suc.prems(3) obtain f where f: "fuel = Suc f" "k \<le> f"
    by (cases fuel) simp_all
  have pos: "0 < m"
  proof (rule ccontr)
    assume "\<not> 0 < m"
    then have "m * 2 ^ Suc k \<le> 0" by (simp add: mult_le_0_iff)
    with Suc.prems(1) show False by simp
  qed
  have "m * 2 \<le> m * 2 ^ Suc k"
    using pos by simp
  with Suc.prems(2) have lt: "m * 2 < 2 ^ 53" by simp
  then have small: "m < 2 ^ 52" "\<not> 2 ^ 53 \<le> m"
    using pos by simp_all
  have ex: "- 1074 < ex"
    using Suc.prems(4) by simp
  have "scaleBinade f (m * 2) (ex - 1) = (m * 2 * 2 ^ k, ex - 1 - int k)"
    using Suc.prems f(2) by (intro Suc.IH) (simp_all add: mult.assoc)
  then show ?case
    using small ex by (simp add: f(1) mult.assoc)
qed

lemma rne_ge_floor: "\<lfloor>q\<rfloor> \<le> rne q"
  by (simp add: rne_def Let_def)

lemma roundDouble_eval:
  assumes "k \<le> 1074" "2 ^ 52 \<le> x * 2 ^ k" "x * 2 ^ k < 2 ^ 53"
  shows "roundDouble x = of_int (rne (x * 2 ^ k)) / 2 ^ k"
proof -
  have pos: "0 < x"
  proof (rule ccontr)
    assume "\<not> 0 < x"
    then have "x * 2 ^ k \<le> 0" by (simp add: mult_le_0_iff)
    with assms(2) show False by simp
  qed
  have "scaleBinade 2200 \<bar>x\<bar> 0 = (\<bar>x\<bar> * 2 ^ k, 0 - int k)"
    using assms pos by (intro scaleBinade_up) simp_all
  then show ?thesis
    using pos by (simp add: roundDouble_def pow2_def)
qed

lemma roundDouble_pos:
  assumes "k \<le> 1074" "2 ^ 52 \<le> x * 2 ^ k" "x * 2 ^ k < 2 ^ 53"
  shows "0 < roundDouble x"
proof -
  have "(2 ^ 52 :: int) \<le> \<lfloor>x * 2 ^ k\<rfloor>"
    using assms(2) by (simp add: le_floor_iff)
  also have "\<dots> \<le> rne (x * 2 ^ k)" by (rule rne_ge_floor)
  finally have "0 < rne (x * 2 ^ k)" by simp
  then show ?thesis
    by (simp add: roundDouble_eval [OF assms])
qed

lemma roundDouble_nonzero:
  assumes "1 / 4 \<le> x" "x < 4"
  shows "roundDouble x \<noteq> 0"
proof -
  consider "x < 1 / 2" | "1 / 2 \<le> x" "x < 1" | "1 \<le> x" "x < 2" | "2 \<le> x"
    by linarith
  then have "0 < roundDouble x"
  proof cases
    case 1
    then show ?thesis using assms by (intro roundDouble_pos [of 54]) simp_all
  next
    case 2
    then show ?thesis by (intro roundDouble_pos [of 53]) simp_all
  next
    case 3
    then show ?thesis by (intro roundDouble_pos [of 52]) simp_all
  next
    case 4
    then show ?thesis using assms by (intro roundDouble_pos [of 51]) simp_all
  qed
  then show ?thesis by simp
qed

text \<open>No multiplier of the table rounds to zero: the \<open>|| 1.0\<close> never applies.\<close>

lemma roundDouble_multipliers_nonzero:
  "list_all (\<lambda>t. roundDouble (multiplier t) \<noteq> 0) SCALING_THRESHOLDS"
proof -
  have "list_all (\<lambda>t. 1 / 4 \<le> multiplier t \<and> multiplier t < 4) SCALING_THRESHOLDS"
    by (simp add: SCALING_THRESHOLDS_def MICRO_TINY_def)
  then show ?thesis
    by (simp add: list_all_iff roundDouble_nonzero)
qed

lemma roundDouble_exact_values:
  "roundDouble 1 = 1" "roundDouble 2 = 2" "roundDouble 3 = 3" "roundDouble 8 = 8"
  "roundDouble 16 = 16" "roundDouble 20 = 20" "roundDouble 48 = 48" "roundDouble 60 = 60"
  "roundDouble (3 / 4) = 3 / 4" "roundDouble (5 / 4) = 5 / 4"
  "roundDouble 5250 = 5250"
  using roundDouble_eval [of 52 1] roundDouble_eval [of 51 2] roundDouble_eval [of 51 3]
    roundDouble_eval [of 49 8] roundDouble_eval [of 48 16] roundDouble_eval [of 48 20]
    roundDouble_eval [of 47 48] roundDouble_eval [of 47 60]
    roundDouble_eval [of 53 "3 / 4"] roundDouble_eval [of 52 "5 / 4"]
    roundDouble_eval [of 40 5250]
  by (simp_all add: rne_def)

text \<open>
  The double that the literal \<open>0.6666666666666666\<close> denotes, and its product with 1.5:
  the exact product lies halfway between two doubles and is rounded to the even one, 1.
\<close>

lemma roundDouble_two_thirds:
  "roundDouble 0.6666666666666666 = 6004799503160661 / 9007199254740992"
  using roundDouble_eval [of 53 "0.6666666666666666"] by (simp add: rne_def)

lemma roundDouble_two_thirds_tie:
  "roundDouble (18014398509481983 / 18014398509481984) = 1"
  using roundDouble_eval [of 53 "18014398509481983 / 18014398509481984"]
  by (simp add: rne_def)

text \<open>The doubles met at 63 words with complexity \<open>0.6\<close> and intensity \<open>0.5\<close>.\<close>

lemma roundDouble_three_fifths:
  "roundDouble 0.6 = 5404319552844595 / 9007199254740992"
  using roundDouble_eval [of 53 "0.6"] by (simp add: rne_def)

lemma roundDouble_three_fifths_chain:
  "roundDouble (16212958658533785 / 18014398509481984) = 2026619832316723 / 2251799813685248"
  "roundDouble (4278419646001971 / 2251799813685248) = 4278419646001971 / 2251799813685248"
  "roundDouble (12835258938005913 / 140737488355328) = 1604407367250739 / 17592186044416"
  "roundDouble (8022036836253695 / 70368744177664) = 8022036836253695 / 70368744177664"
  using roundDouble_eval [of 53 "16212958658533785 / 18014398509481984"]
    roundDouble_eval [of 52 "4278419646001971 / 2251799813685248"]
    roundDouble_eval [of 46 "12835258938005913 / 140737488355328"]
    roundDouble_eval [of 46 "8022036836253695 / 70368744177664"]
  by (simp_all add: rne_def)

text \<open>The double of \<open>0.7\<close>, and its product with 5250.\<close>

lemma roundDouble_seven_tenths:
  "roundDouble (7 / 10) = 3152519739159347 / 4503599627370496"
  "roundDouble (8275364315293285875 / 2251799813685248) = 8081410464153599 / 2199023255552"
  using roundDouble_eval [of 53 "7 / 10"]
    roundDouble_eval [of 41 "8275364315293285875 / 2251799813685248"]
  by (simp_all add: rne_def)

subsection \<open>Where the rounding decides the result\<close>

text \<open>
  One word, overall complexity \<open>0.6666666666666666\<close>, intensity \<open>0.5\<close>: in double
  arithmetic \<open>1 + c * 1.5\<close> is 2 and the node count is 60; the exact product is just
  below 60 and its floor is 59.
\<close>

lemma rounding_decides_node_count:
  assumes "overallComplexity cx = Num (roundDouble 0.6666666666666666)"
  shows "nodeCount (determineScalingStrategy_fl roundDouble (log 2) 1 cx (Num 0.5)) = Num 60"
    and "nodeCount (determineScalingStrategy 1 cx (Num 0.5)) = Num 59"
proof -
  have nz: "roundDouble (strategyMultipliers micro_boost) \<noteq> 0"
    by (simp add: roundDouble_exact_values)
  have "nodeCount (determineScalingStrategy_fl roundDouble (log 2) 1 cx (Num 0.5))
      = calculateBaseNodeCount_fl roundDouble (log 2) 1 cx (Num 0.5) micro_boost"
    by (simp add: determineScalingStrategy_fl_def selectThreshold_def SCALING_THRESHOLDS_def
        MICRO_TINY_def Let_def)
  also have "\<dots> = Num (of_int \<lfloor>max 8 (min 700
      (roundDouble (roundDouble (roundDouble (roundDouble (log 2 (real 1 + 1) * 8)
          * roundDouble (1 + roundDouble (roundDouble 0.6666666666666666 * 1.5)))
          * roundDouble (0.5 + roundDouble (0.5 * 1.5)))
          * roundDouble (strategyMultipliers micro_boost))))\<rfloor>)"
    using assms nz by (rule calculateBaseNodeCount_fl_Num)
  also have "\<dots> = Num 60"
    unfolding roundDouble_two_thirds
    by (simp add: roundDouble_two_thirds_tie roundDouble_exact_values)
  finally show
    "nodeCount (determineScalingStrategy_fl roundDouble (log 2) 1 cx (Num 0.5)) = Num 60" .
  have nz': "strategyMultipliers micro_boost \<noteq> 0"
    by simp
  have "nodeCount (determineScalingStrategy 1 cx (Num 0.5))
      = calculateBaseNodeCount 1 cx (Num 0.5) micro_boost"
    by (simp add: determineScalingStrategy_def selectThreshold_def SCALING_THRESHOLDS_def
        MICRO_TINY_def Let_def)
  also have "\<dots> = Num (of_int \<lfloor>max 8 (min 700
      (log 2 (real 1 + 1) * 8 * (1 + roundDouble 0.6666666666666666 * 1.5) * (0.5 + 0.5 * 1.5)
         * strategyMultipliers micro_boost))\<rfloor>)"
    using assms nz' by (rule calculateBaseNodeCount_Num)
  also have "\<dots> = Num 59"
    unfolding roundDouble_two_thirds by simp
  finally show "nodeCount (determineScalingStrategy 1 cx (Num 0.5)) = Num 59" .
qed

text \<open>
  63 words, overall complexity the double of \<open>0.6\<close>, intensity \<open>0.5\<close>: 113 nodes, where
  the product over the reals with the decimal fraction \<open>0.6\<close> is exactly 114.
\<close>

lemma log2_64: "log 2 64 = 6"
proof -
  have "log 2 (2 ^ 6) = real 6" by (rule log_pow_cancel) simp_all
  then show ?thesis by simp
qed

lemma literal_decides_node_count:
  assumes "overallComplexity cx = Num (roundDouble 0.6)"
    and "overallComplexity cx' = Num 0.6"
  shows "nodeCount (determineScalingStrategy_fl roundDouble (log 2) 63 cx (Num 0.5)) = Num 113"
    and "nodeCount (determineScalingStrategy 63 cx' (Num 0.5)) = Num 114"
proof -
  have nz: "roundDouble (strategyMultipliers small_compress) \<noteq> 0"
    by (simp add: roundDouble_exact_values)
  have "nodeCount (determineScalingStrategy_fl roundDouble (log 2) 63 cx (Num 0.5))
      = calculateBaseNodeCount_fl roundDouble (log 2) 63 cx (Num 0.5) small_compress"
    by (simp add: determineScalingStrategy_fl_def selectThreshold_def SCALING_THRESHOLDS_def
        MICRO_TINY_def Let_def)
  also have "\<dots> = Num (of_int \<lfloor>max 8 (min 700
      (roundDouble (roundDouble (roundDouble (roundDouble (log 2 (real 63 + 1) * 8)
          * roundDouble (1 + roundDouble (roundDouble 0.6 * 1.5)))
          * roundDouble (0.5 + roundDouble (0.5 * 1.5)))
          * roundDouble (strategyMultipliers small_compress))))\<rfloor>)"
    using assms(1) nz by (rule calculateBaseNodeCount_fl_Num)
  also have "\<dots> = Num 113"
    unfolding roundDouble_three_fifths
    by (simp add: log2_64 roundDouble_three_fifths_chain roundDouble_exact_values)
  finally show
    "nodeCount (determineScalingStrategy_fl roundDouble (log 2) 63 cx (Num 0.5)) = Num 113" .
  have nz': "strategyMultipliers small_compress \<noteq> 0"
    by simp
  have "nodeCount (determineScalingStrategy 63 cx' (Num 0.5))
      = calculateBaseNodeCount 63 cx' (Num 0.5) small_compress"
    by (simp add: determineScalingStrategy_def selectThreshold_def SCALING_THRESHOLDS_def
        MICRO_TINY_def Let_def)
  also have "\<dots> = Num (of_int \<lfloor>max 8 (min 700
      (log 2 (real 63 + 1) * 8 * (1 + 0.6 * 1.5) * (0.5 + 0.5 * 1.5)
         * strategyMultipliers small_compress))\<rfloor>)"
    using assms(2) nz' by (rule calculateBaseNodeCount_Num)
  also have "\<dots> = Num 114"
    by (simp add: log2_64)
  finally show "nodeCount (determineScalingStrategy 63 cx' (Num 0.5)) = Num 114" .
qed

text \<open>
  70 nodes under \<open>large_compress\<close>: \<open>5250 * 0.7\<close> is just below 3675 in doubles, and
  3675 with the decimal fraction.
\<close>

lemma literal_decides_particle_count:
  "calculateParticleCount_fl roundDouble (Num 70) large_compress = Num 3674"
  "calculateParticleCount (Num 70) large_compress = Num 3675"
  by (simp_all add: calculateParticleCount_fl_def calculateParticleCount_def fmul_def Let_def
      roundDouble_exact_values roundDouble_seven_tenths)

subsection \<open>The node count formula and the bounds\<close>

text \<open>
  Claim C1. For every word count \<open>W\<close>, overall complexity \<open>c\<close> in \<open>[0,1]\<close> and emotion
  intensity \<open>e\<close> in \<open>[0,1]\<close>, the scaling resolver returns
  \<open>nodeCount = floor (clamp (log2 (W+1) * 8 * (1 + 1.5 c) * (0.5 + 1.5 e) * m, 8, 700))\<close>,
  where \<open>m\<close> is the multiplier of the tier whose range holds \<open>W\<close> (the resolver returns that
  tier's strategy and multiplier; for a word count in no range, those of the initial value
  \<open>MICRO_TINY\<close>) and the expression is evaluated as the program evaluates it: from the
  left, every operation rounded. The node count lies in \<open>[8,700]\<close> and the
  particle count in \<open>[500,35000]\<close>, for every word count, so also from 0 to 100,000.
  This holds for every rounding function under which no multiplier of the table becomes
  zero, and for every \<open>log2\<close>; rounding to double is such a function
  (\<open>roundDouble_multipliers_nonzero\<close>).
\<close>

theorem scaling_resolver_rounded_formula_and_bounds:
  assumes "0 \<le> c" "c \<le> 1" "0 \<le> e" "e \<le> 1" "overallComplexity cx = Num c"
    and nz: "\<forall>t\<in>set SCALING_THRESHOLDS. rd (multiplier t) \<noteq> 0"
  shows "(\<forall>t\<in>set SCALING_THRESHOLDS. tmin t \<le> W \<and> W \<le> tmax t \<longrightarrow>
            stype (determineScalingStrategy_fl rd lg2 W cx (Num e)) = strategy t
            \<and> smultiplier (determineScalingStrategy_fl rd lg2 W cx (Num e)) = rd (multiplier t))
         \<and> ((\<forall>t\<in>set SCALING_THRESHOLDS. \<not> (tmin t \<le> W \<and> W \<le> tmax t)) \<longrightarrow>
            stype (determineScalingStrategy_fl rd lg2 W cx (Num e)) = micro_boost
            \<and> smultiplier (determineScalingStrategy_fl rd lg2 W cx (Num e)) = rd 3)
         \<and> (\<exists>n p. nodeCount (determineScalingStrategy_fl rd lg2 W cx (Num e)) = Num (of_int n)
              \<and> n = \<lfloor>max 8 (min 700
                    (rd (rd (rd (rd (lg2 (real W + 1) * 8) * rd (1 + rd (c * 1.5)))
                              * rd (0.5 + rd (e * 1.5)))
                         * smultiplier (determineScalingStrategy_fl rd lg2 W cx (Num e)))))\<rfloor>
              \<and> 8 \<le> n \<and> n \<le> 700
              \<and> particleCount (determineScalingStrategy_fl rd lg2 W cx (Num e)) = Num (of_int p)
              \<and> 500 \<le> p \<and> p \<le> 35000)"
proof (intro conjI)
  show "\<forall>t\<in>set SCALING_THRESHOLDS. tmin t \<le> W \<and> W \<le> tmax t \<longrightarrow>
            stype (determineScalingStrategy_fl rd lg2 W cx (Num e)) = strategy t
            \<and> smultiplier (determineScalingStrategy_fl rd lg2 W cx (Num e)) = rd (multiplier t)"
    by (auto simp: determineScalingStrategy_fl_def Let_def selectThreshold_range)
next
  show "(\<forall>t\<in>set SCALING_THRESHOLDS. \<not> (tmin t \<le> W \<and> W \<le> tmax t)) \<longrightarrow>
            stype (determineScalingStrategy_fl rd lg2 W cx (Num e)) = micro_boost
            \<and> smultiplier (determineScalingStrategy_fl rd lg2 W cx (Num e)) = rd 3"
  proof
    assume "\<forall>t\<in>set SCALING_THRESHOLDS. \<not> (tmin t \<le> W \<and> W \<le> tmax t)"
    then have "selectThreshold W = MICRO_TINY"
      by (rule selectThreshold_default)
    then show "stype (determineScalingStrategy_fl rd lg2 W cx (Num e)) = micro_boost
            \<and> smultiplier (determineScalingStrategy_fl rd lg2 W cx (Num e)) = rd 3"
      by (simp add: determineScalingStrategy_fl_def MICRO_TINY_def Let_def)
  qed
next
  define t where "t = selectThreshold W"
  have tt: "t \<in> set SCALING_THRESHOLDS"
    unfolding t_def by (rule selectThreshold_in_table)
  have m: "strategyMultipliers (strategy t) = multiplier t"
    using table_multipliers [OF tt] by simp
  have mz: "rd (strategyMultipliers (strategy t)) \<noteq> 0"
    using nz tt by (simp add: m)
  define r where "r = rd (rd (rd (rd (lg2 (real W + 1) * 8) * rd (1 + rd (c * 1.5)))
                              * rd (0.5 + rd (e * 1.5))) * rd (multiplier t))"
  define n where "n = \<lfloor>max 8 (min 700 r)\<rfloor>"
  have base: "calculateBaseNodeCount_fl rd lg2 W cx (Num e) (strategy t) = Num (of_int n)"
    using assms(5) mz by (simp add: calculateBaseNodeCount_fl_Num m n_def r_def)
  obtain p where p: "calculateParticleCount_fl rd (Num (of_int n)) (strategy t) = Num (of_int p)"
      "500 \<le> p" "p \<le> 35000"
    using calculateParticleCount_fl_bounds by blast
  have "nodeCount (determineScalingStrategy_fl rd lg2 W cx (Num e)) = Num (of_int n)"
    using base by (simp add: determineScalingStrategy_fl_def t_def Let_def)
  moreover have "smultiplier (determineScalingStrategy_fl rd lg2 W cx (Num e)) = rd (multiplier t)"
    by (simp add: determineScalingStrategy_fl_def t_def Let_def)
  moreover have "particleCount (determineScalingStrategy_fl rd lg2 W cx (Num e)) = Num (of_int p)"
    using base p(1) by (simp add: determineScalingStrategy_fl_def t_def Let_def)
  moreover have "8 \<le> n \<and> n \<le> 700"
    unfolding n_def by (rule floor_clamp_bounds)
  ultimately show "\<exists>n p. nodeCount (determineScalingStrategy_fl rd lg2 W cx (Num e)) = Num (of_int n)
              \<and> n = \<lfloor>max 8 (min 700
                    (rd (rd (rd (rd (lg2 (real W + 1) * 8) * rd (1 + rd (c * 1.5)))
                              * rd (0.5 + rd (e * 1.5)))
                         * smultiplier (determineScalingStrategy_fl rd lg2 W cx (Num e)))))\<rfloor>
              \<and> 8 \<le> n \<and> n \<le> 700
              \<and> particleCount (determineScalingStrategy_fl rd lg2 W cx (Num e)) = Num (of_int p)
              \<and> 500 \<le> p \<and> p \<le> 35000"
    using p(2,3) by (simp add: n_def r_def)
qed

text \<open>
  In double arithmetic: one word, overall complexity \<open>0.6666666666666666\<close>, intensity
  \<open>0.5\<close>, the other scores those of the test suite's mock: tier \<open>micro_boost\<close>,
  multiplier 3, 60 nodes.
\<close>

theorem scaling_resolver_rounded_formula_and_bounds_witness:
  "(0::real) \<le> roundDouble 0.6666666666666666 \<and> roundDouble 0.6666666666666666 \<le> 1
   \<and> (0::real) \<le> 0.5 \<and> (0.5::real) \<le> 1
   \<and> overallComplexity (mockComplexity\<lparr>overallComplexity := Num (roundDouble 0.6666666666666666)\<rparr>)
       = Num (roundDouble 0.6666666666666666)
   \<and> list_all (\<lambda>t. roundDouble (multiplier t) \<noteq> 0) SCALING_THRESHOLDS
   \<and> tmin MICRO_TINY \<le> 1 \<and> 1 \<le> tmax MICRO_TINY
   \<and> stype (determineScalingStrategy_fl roundDouble (log 2) 1
         (mockComplexity\<lparr>overallComplexity := Num (roundDouble 0.6666666666666666)\<rparr>) (Num 0.5))
       = micro_boost
   \<and> smultiplier (determineScalingStrategy_fl roundDouble (log 2) 1
         (mockComplexity\<lparr>overallComplexity := Num (roundDouble 0.6666666666666666)\<rparr>) (Num 0.5))
       = 3
   \<and> nodeCount (determineScalingStrategy_fl roundDouble (log 2) 1
         (mockComplexity\<lparr>overallComplexity := Num (roundDouble 0.6666666666666666)\<rparr>) (Num 0.5))
       = Num 60
   \<and> (\<exists>p. particleCount (determineScalingStrategy_fl roundDouble (log 2) 1
         (mockComplexity\<lparr>overallComplexity := Num (roundDouble 0.6666666666666666)\<rparr>) (Num 0.5))
           = Num (of_int p)
         \<and> 500 \<le> p \<and> p \<le> 35000)"
proof -
  define cx where
    "cx = mockComplexity\<lparr>overallComplexity := Num (roundDouble 0.6666666666666666)\<rparr>"
  define st where "st = determineScalingStrategy_fl roundDouble (log 2) 1 cx (Num 0.5)"
  have c: "(0::real) \<le> roundDouble 0.6666666666666666" "roundDouble 0.6666666666666666 \<le> 1"
    unfolding roundDouble_two_thirds by simp_all
  have cx: "overallComplexity cx = Num (roundDouble 0.6666666666666666)"
    by (simp add: cx_def)
  have nz: "\<forall>t\<in>set SCALING_THRESHOLDS. roundDouble (multiplier t) \<noteq> 0"
    using roundDouble_multipliers_nonzero by (simp add: list_all_iff)
  have mem: "MICRO_TINY \<in> set SCALING_THRESHOLDS"
    by (simp add: SCALING_THRESHOLDS_def)
  have rng: "tmin MICRO_TINY \<le> 1" "1 \<le> tmax MICRO_TINY" "strategy MICRO_TINY = micro_boost"
    "multiplier MICRO_TINY = 3"
    by (simp_all add: MICRO_TINY_def)
  have e: "(0::real) \<le> 0.5" "(0.5::real) \<le> 1"
    by simp_all
  note inst = scaling_resolver_rounded_formula_and_bounds
    [of "roundDouble 0.6666666666666666" "0.5" cx roundDouble 1 "log 2", OF c e cx nz,
      folded st_def]
  from inst mem rng have tier: "stype st = micro_boost" "smultiplier st = 3"
    by (auto simp: roundDouble_exact_values)
  from inst obtain n p where np:
    "nodeCount st = Num (of_int n)"
    "n = \<lfloor>max 8 (min 700
       (roundDouble (roundDouble (roundDouble (roundDouble (log 2 (real 1 + 1) * 8)
          * roundDouble (1 + roundDouble (roundDouble 0.6666666666666666 * 1.5)))
          * roundDouble (0.5 + roundDouble (0.5 * 1.5)))
          * smultiplier st)))\<rfloor>"
    "particleCount st = Num (of_int p)" "500 \<le> p" "p \<le> 35000"
    by blast
  have "n = 60"
    unfolding np(2) tier(2) roundDouble_two_thirds
    by (simp add: roundDouble_two_thirds_tie roundDouble_exact_values)
  with np have "nodeCount st = Num 60"
    "\<exists>p. particleCount st = Num (of_int p) \<and> 500 \<le> p \<and> p \<le> 35000"
    by auto
  with c cx tier rng(1,2) roundDouble_multipliers_nonzero show ?thesis
    unfolding st_def cx_def by simp
qed

section \<open>Properties of the emotion scorer\<close>

lemmas tokenize_defs =
  tokenizeText_def splitOnSpaces_def toLowerCase_def toLowerChar_def isWordChar_def
  isSpace_def charCodeAt_def

lemmas lexicon_defs =
  emotionLexicon_def joyWords_def sadnessWords_def angerWords_def fearWords_def
  surpriseWords_def anticipationWords_def

text \<open>The expectation of the test suite for \<open>TextAnalyzer.tokenizeText\<close>.\<close>

lemma TextAnalyzer_tokenizeText_test:
  "TextAnalyzer_tokenizeText ''Hello world! This is a happy day.''
     = [''Hello'', ''world!'', ''This'', ''is'', ''a'', ''happy'', ''day.'']"
  by (simp add: TextAnalyzer_tokenizeText_def trim_def splitOnSpaces_def isSpace_def
      charCodeAt_def)

lemma word_happy:
  "\<not> negationWords ''happy''" "intensifierWords ''happy'' = None"
  "emotionLexicon ''happy'' = Some (Joy, 0.8)"
  by (simp_all add: negationWords_def negations_def intensifierWords_def intensifiers_def
      lexicon_defs)

lemma word_sad:
  "\<not> negationWords ''sad''" "intensifierWords ''sad'' = None"
  "emotionLexicon ''sad'' = Some (Sadness, 0.8)"
  by (simp_all add: negationWords_def negations_def intensifierWords_def intensifiers_def
      lexicon_defs)

lemma word_not: "negationWords ''not''"
  by (simp add: negationWords_def negations_def)

lemma word_extremely:
  "\<not> negationWords ''extremely''" "intensifierWords ''extremely'' = Some 2"
  by (simp_all add: negationWords_def negations_def intensifierWords_def intensifiers_def)

lemma scanWord_negation:
  "negationWords w \<Longrightarrow> scanWord w st = st\<lparr>negationActive := True\<rparr>"
  by (simp add: scanWord_def)

lemma scanWord_intensifier:
  "\<not> negationWords w \<Longrightarrow> intensifierWords w = Some m \<Longrightarrow> m \<noteq> 0
     \<Longrightarrow> scanWord w st = st\<lparr>currentIntensifier := m\<rparr>"
  by (simp add: scanWord_def)

lemma scanWord_emotion:
  "\<not> negationWords w \<Longrightarrow> intensifierWords w = None \<Longrightarrow> emotionLexicon w = Some (em, b)
     \<Longrightarrow> scanWord w st =
          \<lparr>rawScores = addScore em
             (if negationActive st then b * currentIntensifier st * (- 0.5)
              else b * currentIntensifier st) (rawScores st),
           totalEmotionalWords = totalEmotionalWords st + 1,
           negationActive = False,
           currentIntensifier = 1.0\<rparr>"
  by (simp add: scanWord_def Let_def)

lemma scores_analyze_zero:
  "scores (analyze text 0) = calculateEmotionScores (tokenizeText text)"
  by (simp add: analyze_def Let_def split: prod.split)

lemma scores_analyze_nonpositive:
  "v \<le> 0 \<Longrightarrow> scores (analyze text v) = calculateEmotionScores (tokenizeText text)"
  by (simp add: analyze_def Let_def split: prod.split)

lemma tokens_extremely_happy: "tokenizeText ''extremely happy'' = [''extremely'', ''happy'']"
  by (simp add: tokenize_defs)

lemma tokens_sad: "tokenizeText ''sad'' = [''sad'']"
  by (simp add: tokenize_defs)

lemma tokens_not_happy3:
  "tokenizeText ''not happy not happy not happy''
     = [''not'', ''happy'', ''not'', ''happy'', ''not'', ''happy'']"
  by (simp add: tokenize_defs)

lemma tokens_happy3: "tokenizeText ''happy happy happy'' = [''happy'', ''happy'', ''happy'']"
  by (simp add: tokenize_defs)

lemma scores_extremely_happy:
  "calculateEmotionScores [''extremely'', ''happy''] = zeroScores\<lparr>joy := 1.6\<rparr>"
  by (simp add: calculateEmotionScores_def initialScan_def zeroScores_def normalizeScores_def
      scanWord_intensifier [OF word_extremely] scanWord_emotion [OF word_happy])

lemma scores_sad: "calculateEmotionScores [''sad''] = zeroScores\<lparr>sadness := 0.8\<rparr>"
  by (simp add: calculateEmotionScores_def initialScan_def zeroScores_def normalizeScores_def
      scanWord_emotion [OF word_sad])

text \<open>
  Claim C4 states that each of the six emotion scores returned by \<open>analyze\<close> lies in
  \<open>[0,1]\<close>. The scores are divided by the number of emotional words and floored at 0,
  but not capped: an intensified word contributes its base intensity times the
  intensifier. For the text \<open>extremely happy\<close> (intensifier 2.0, base 0.8, one emotional
  word) the joy score is 1.6.
\<close>

theorem intensified_joy_exceeds_one:
  "joy (scores (analyze ''extremely happy'' 0)) = 1.6
   \<and> 1 < joy (scores (analyze ''extremely happy'' 0))"
  by (simp add: scores_analyze_zero tokens_extremely_happy scores_extremely_happy)

text \<open>
  Claim C9 states that a negative emoji influence \<open>v\<close> passed to \<open>analyze\<close> raises the
  sadness score by \<open>|v| * 0.3\<close> and the fear score by \<open>|v| * 0.2\<close>, capped at 1.
  \<open>applyEmojiInfluence\<close> has that branch, but \<open>analyze\<close> calls it under the guard
  \<open>emojiInfluence > 0\<close> only: for the text \<open>sad\<close> and \<open>v = -1\<close> the scores are those of
  influence 0 (sadness 0.8, fear 0), where the branch would give sadness 1 and fear 0.2.
\<close>

theorem negative_emoji_influence_ignored:
  "scores (analyze ''sad'' (- 1)) = scores (analyze ''sad'' 0)
   \<and> sadness (scores (analyze ''sad'' (- 1))) = 0.8
   \<and> fear (scores (analyze ''sad'' (- 1))) = 0
   \<and> sadness (applyEmojiInfluence (scores (analyze ''sad'' 0)) (- 1)) = 1
   \<and> fear (applyEmojiInfluence (scores (analyze ''sad'' 0)) (- 1)) = 0.2"
  by (simp add: scores_analyze_nonpositive tokens_sad scores_sad applyEmojiInfluence_def
      zeroScores_def)

text \<open>
  Claim C8. A text whose tokens are three occurrences of a negation word followed by a
  joy word \<open>w\<close> has a strictly lower joy score than the text whose tokens are \<open>w\<close> three
  times: each negated occurrence contributes \<open>-0.5\<close> times its intensity and the sum is
  floored at 0, each plain occurrence contributes its intensity.
\<close>

theorem negated_words_lower_joy:
  assumes "negationWords n" "\<not> negationWords w" "intensifierWords w = None"
    and "emotionLexicon w = Some (Joy, b)" "0 < b"
    and "tokenizeText negated = [n, w, n, w, n, w]" "tokenizeText plain = [w, w, w]"
  shows "joy (scores (analyze negated 0)) = 0
         \<and> joy (scores (analyze plain 0)) = b
         \<and> joy (scores (analyze negated 0)) < joy (scores (analyze plain 0))"
proof -
  have e: "\<And>st. scanWord w st =
          \<lparr>rawScores = addScore Joy
             (if negationActive st then b * currentIntensifier st * (- 0.5)
              else b * currentIntensifier st) (rawScores st),
           totalEmotionalWords = totalEmotionalWords st + 1,
           negationActive = False,
           currentIntensifier = 1.0\<rparr>"
    using assms(2,3,4) by (rule scanWord_emotion)
  have n: "\<And>st. scanWord n st = st\<lparr>negationActive := True\<rparr>"
    using assms(1) by (rule scanWord_negation)
  have neg: "joy (calculateEmotionScores [n, w, n, w, n, w]) = 0"
    using assms(5)
    by (simp add: calculateEmotionScores_def initialScan_def zeroScores_def normalizeScores_def
        e n)
  have pos: "joy (calculateEmotionScores [w, w, w]) = b"
    using assms(5)
    by (simp add: calculateEmotionScores_def initialScan_def zeroScores_def normalizeScores_def e)
  show ?thesis
    using neg pos assms(5,6,7) by (simp add: scores_analyze_zero)
qed

text \<open>The texts of the claim: \<open>not happy\<close> three times, and \<open>happy\<close> three times.\<close>

theorem negated_words_lower_joy_witness:
  "negationWords ''not'' \<and> emotionLexicon ''happy'' = Some (Joy, 0.8)
   \<and> joy (scores (analyze ''not happy not happy not happy'' 0)) = 0
   \<and> joy (scores (analyze ''happy happy happy'' 0)) = 0.8
   \<and> joy (scores (analyze ''not happy not happy not happy'' 0))
       < joy (scores (analyze ''happy happy happy'' 0))"
  using negated_words_lower_joy [OF word_not word_happy _ tokens_not_happy3 tokens_happy3]
    word_not word_happy
  by simp

subsection \<open>The range of the scores\<close>

text \<open>
  What holds for every text and every emoji influence: each score is at least 0 and at
  most 1.6, the largest base intensity (0.8) times the largest intensifier (2.0).
\<close>

lemma intensifier_range: "intensifierWords w = Some m \<Longrightarrow> 0 < m \<and> m \<le> 2"
  by (auto simp: intensifierWords_def intensifiers_def split: if_splits)

lemma lexicon_range: "emotionLexicon w = Some (em, b) \<Longrightarrow> 0 < b \<and> b \<le> 0.8"
  by (auto simp: emotionLexicon_def split: if_splits)

lemma getScore_addScore:
  "getScore em' (addScore em x s) = (if em' = em then getScore em s + x else getScore em' s)"
  by (cases em; cases em') simp_all

lemma getScore_normalizeScores:
  "getScore em (normalizeScores n s) = max 0 (getScore em s / real n)"
  by (cases em) (simp_all add: normalizeScores_def)

lemma getScore_zeroScores [simp]: "getScore em zeroScores = 0"
  by (cases em) (simp_all add: zeroScores_def)

lemma scanWord_invariant:
  assumes "0 < currentIntensifier st" "currentIntensifier st \<le> 2"
    and "\<And>em. getScore em (rawScores st) \<le> 1.6 * real (totalEmotionalWords st)"
    and "totalEmotionalWords st = 0 \<Longrightarrow> rawScores st = zeroScores"
  shows "0 < currentIntensifier (scanWord w st) \<and> currentIntensifier (scanWord w st) \<le> 2
         \<and> (\<forall>em. getScore em (rawScores (scanWord w st))
                  \<le> 1.6 * real (totalEmotionalWords (scanWord w st)))
         \<and> (totalEmotionalWords (scanWord w st) = 0 \<longrightarrow> rawScores (scanWord w st) = zeroScores)"
proof (cases "negationWords w")
  case True
  then show ?thesis using assms by (simp add: scanWord_def)
next
  case False
  note nn = this
  show ?thesis
  proof (cases "intensifierWords w")
    case (Some m)
    with nn intensifier_range [OF Some] assms show ?thesis
      by (simp add: scanWord_def)
  next
    case None
    note ni = this
    show ?thesis
    proof (cases "emotionLexicon w")
      case None
      with nn ni assms show ?thesis by (simp add: scanWord_def)
    next
      case (Some p)
      obtain e b where p: "p = (e, b)" by (cases p)
      from Some p have b: "0 < b" "b \<le> 0.8"
        using lexicon_range [of w e b] by simp_all
      define x where "x = (if negationActive st then b * currentIntensifier st * (- 0.5)
                            else b * currentIntensifier st)"
      have "b * currentIntensifier st \<le> 0.8 * 2"
        using b assms(1,2) by (intro mult_mono) simp_all
      moreover have "0 \<le> b * currentIntensifier st"
        using b assms(1) by simp
      ultimately have x: "x \<le> 1.6"
        by (simp add: x_def)
      have sw: "scanWord w st =
          \<lparr>rawScores = addScore e x (rawScores st),
           totalEmotionalWords = totalEmotionalWords st + 1,
           negationActive = False, currentIntensifier = 1.0\<rparr>"
        using nn ni Some p by (simp add: scanWord_def Let_def x_def)
      have "getScore em (addScore e x (rawScores st))
              \<le> 1.6 * real (totalEmotionalWords st + 1)" for em
        using assms(3) [of em] assms(3) [of e] x
        by (simp add: getScore_addScore algebra_simps)
      then show ?thesis
        by (simp add: sw)
    qed
  qed
qed

lemma scanWords_invariant:
  assumes "0 < currentIntensifier st" "currentIntensifier st \<le> 2"
    and "\<And>em. getScore em (rawScores st) \<le> 1.6 * real (totalEmotionalWords st)"
    and "totalEmotionalWords st = 0 \<Longrightarrow> rawScores st = zeroScores"
  shows "(\<forall>em. getScore em (rawScores (scanWords ws st))
             \<le> 1.6 * real (totalEmotionalWords (scanWords ws st)))
         \<and> (totalEmotionalWords (scanWords ws st) = 0
              \<longrightarrow> rawScores (scanWords ws st) = zeroScores)"
  using assms
proof (induction ws arbitrary: st)
  case Nil
  then show ?case by simp
next
  case (Cons w ws)
  have inv: "0 < currentIntensifier (scanWord w st) \<and> currentIntensifier (scanWord w st) \<le> 2
         \<and> (\<forall>em. getScore em (rawScores (scanWord w st))
                  \<le> 1.6 * real (totalEmotionalWords (scanWord w st)))
         \<and> (totalEmotionalWords (scanWord w st) = 0 \<longrightarrow> rawScores (scanWord w st) = zeroScores)"
    using Cons.prems by (intro scanWord_invariant) simp_all
  show ?case
    using Cons.IH [of "scanWord w st"] inv by simp
qed

lemma calculateEmotionScores_bounds:
  "0 \<le> getScore em (calculateEmotionScores ws) \<and> getScore em (calculateEmotionScores ws) \<le> 1.6"
proof -
  define st where "st = scanWords ws initialScan"
  have inv: "(\<forall>em. getScore em (rawScores st) \<le> 1.6 * real (totalEmotionalWords st))
         \<and> (totalEmotionalWords st = 0 \<longrightarrow> rawScores st = zeroScores)"
    unfolding st_def by (intro scanWords_invariant) (simp_all add: initialScan_def)
  show ?thesis
  proof (cases "totalEmotionalWords st = 0")
    case True
    with inv have "calculateEmotionScores ws = zeroScores"
      by (simp add: calculateEmotionScores_def st_def [symmetric])
    then show ?thesis by simp
  next
    case False
    then have pos: "0 < real (totalEmotionalWords st)" by simp
    have "getScore em (rawScores st) \<le> 1.6 * real (totalEmotionalWords st)"
      using inv by simp
    then have "getScore em (rawScores st) / real (totalEmotionalWords st) \<le> 1.6"
      using pos by (simp add: pos_divide_le_eq)
    with False show ?thesis
      by (simp add: calculateEmotionScores_def st_def [symmetric] getScore_normalizeScores)
  qed
qed

lemma emotion_scores_bounds:
  "0 \<le> getScore em (scores (analyze text v)) \<and> getScore em (scores (analyze text v)) \<le> 1.6"
proof -
  define s where "s = calculateEmotionScores (tokenizeText text)"
  have b: "0 \<le> getScore e s \<and> getScore e s \<le> 1.6" for e
    unfolding s_def by (rule calculateEmotionScores_bounds)
  show ?thesis
  proof (cases "0 < v")
    case False
    then have "scores (analyze text v) = s"
      by (simp add: analyze_def Let_def s_def split: prod.split)
    with b show ?thesis by simp
  next
    case True
    then have sc: "scores (analyze text v) = applyEmojiInfluence s v"
      by (simp add: analyze_def Let_def s_def split: prod.split)
    have "0 \<le> joy s" "0 \<le> anticipation s"
      using b [of Joy] b [of Anticipation] by simp_all
    then show ?thesis
      using True b [of em] by (cases em) (auto simp: sc applyEmojiInfluence_def min_def)
  qed
qed

section \<open>Degenerate input through the pipeline\<close>

lemma jadd_NaN_right [simp]: "jadd x NaN = NaN"
  by (cases x) simp_all

lemma jmul_NaN_right [simp]: "jmul x NaN = NaN"
  by (cases x) simp_all

lemma jmin_NaN [simp]: "jmin x NaN = NaN" "jmin NaN x = NaN"
  by (simp_all add: jmin_def)

lemma jmax_NaN [simp]: "jmax x NaN = NaN" "jmax NaN x = NaN"
  by (simp_all add: jmax_def)

text \<open>
  With no word, every quotient of \<open>calculateEmotionalComplexity\<close> is \<open>0 / 0\<close>; its three
  siblings return 0 before they divide.
\<close>

lemma calculateEmotionalComplexity_no_words: "calculateEmotionalComplexity text [] = NaN"
  by (simp add: calculateEmotionalComplexity_def Let_def inf_of_sign_def)

lemma overallComplexity_no_words:
  assumes "tokenizeText text = []"
  shows "emotionalComplexity (ComplexityAnalyzer_analyze text) = NaN"
    and "overallComplexity (ComplexityAnalyzer_analyze text) = NaN"
    and "vocabularyDiversity (ComplexityAnalyzer_analyze text) = Num 0"
    and "conceptDensity (ComplexityAnalyzer_analyze text) = Num 0"
  using assms
  by (simp_all add: ComplexityAnalyzer_analyze_def Let_def calculateEmotionalComplexity_no_words
      calculateVocabularyDiversity_def calculateConceptDensity_def)

lemma nodeCount_NaN_complexity:
  assumes "overallComplexity cx = NaN"
  shows "nodeCount (determineScalingStrategy W cx e) = NaN"
    and "particleCount (determineScalingStrategy W cx e) = NaN"
  using assms
  by (simp_all add: determineScalingStrategy_def calculateBaseNodeCount_def rawNodeCount_def
      calculateParticleCount_def Let_def)

text \<open>
  A \<open>NaN\<close> complexity gives a \<open>NaN\<close> node count whatever the rounding: the results on
  texts without words do not depend on the arithmetic being exact.
\<close>

lemma rounded_nodeCount_NaN_complexity:
  assumes "overallComplexity cx = NaN"
  shows "nodeCount (determineScalingStrategy_fl rd lg2 W cx e) = NaN"
    and "particleCount (determineScalingStrategy_fl rd lg2 W cx e) = NaN"
  using assms
  by (simp_all add: determineScalingStrategy_fl_def calculateBaseNodeCount_fl_def
      rawNodeCount_fl_def calculateParticleCount_fl_def fadd_def fmul_def Let_def)

lemma degenerate_text_node_count_NaN:
  assumes "tokenizeText text = []"
  shows "nodeCount (scalingStrategy (analyzeFresh ex bg now text)) = NaN"
    and "particleCount (scalingStrategy (analyzeFresh ex bg now text)) = NaN"
  using overallComplexity_no_words(2) [OF assms]
  by (simp_all add: analyzeFresh_def Let_def nodeCount_NaN_complexity)

lemma tokens_empty: "tokenizeText '''' = []" "TextAnalyzer_tokenizeText '''' = []"
  by (simp_all add: tokenize_defs TextAnalyzer_tokenizeText_def trim_def)

lemma tokens_blank: "tokenizeText ''   '' = []" "TextAnalyzer_tokenizeText ''   '' = []"
  by (simp_all add: tokenize_defs TextAnalyzer_tokenizeText_def trim_def)

lemma tokens_punctuation:
  "tokenizeText ''!!!'' = []" "TextAnalyzer_tokenizeText ''!!!'' = [''!!!'']"
  by (simp_all add: tokenize_defs TextAnalyzer_tokenizeText_def trim_def)

lemma sentences_empty: "splitIntoSentences '''' = []"
  by (simp add: splitIntoSentences_def trim_def)

lemma findDominantEmotion_zero:
  "findDominantEmotion zeroScores = \<lparr>emotion = Joy, score = 0, confidence = 0\<rparr>"
  by (simp add: findDominantEmotion_def scoreEntries_def zeroScores_def Let_def)

lemma calculateDimensions_zero: "calculateDimensions zeroScores = (0, 0)"
  by (simp add: calculateDimensions_def zeroScores_def Let_def)

lemma calculateIntensity_zero:
  "calculateIntensity zeroScores \<lparr>emotion = Joy, score = 0, confidence = 0\<rparr> = 0"
  by (simp add: calculateIntensity_def scoreEntries_def zeroScores_def Let_def)

lemma calculateEmotionScores_nil: "calculateEmotionScores [] = zeroScores"
  by (simp add: calculateEmotionScores_def initialScan_def Let_def)

lemma emoji_influence_latin1: "calculateEmojiInfluence (extractEmojiData text) = 0"
  by (simp add: extractEmojiData_def calculateEmojiInfluence_def)

lemma sentiment_empty:
  "analyzeSentiment '''' =
     \<lparr>scores = zeroScores,
      dominant = \<lparr>emotion = Joy, score = 0, confidence = 0\<rparr>,
      intensity = 0, valence = 0, arousal = 0\<rparr>"
  by (simp add: analyzeSentiment_def emoji_influence_latin1 analyze_def tokens_empty
      calculateEmotionScores_nil findDominantEmotion_zero calculateDimensions_zero
      calculateIntensity_zero)

text \<open>
  Claim C2 states that for the empty text (and for white space or punctuation only) the
  pipeline yields an empty word list, scores that are zero or near zero and never \<open>NaN\<close>,
  and the node count 8. For the empty text the word list is empty and the emotion scores
  are zero, but the emotional complexity is \<open>0 / 0 = NaN\<close>; the overall complexity, the
  node count and the particle count are \<open>NaN\<close> with it (\<open>Math.max (8, NaN)\<close> is
  \<open>NaN\<close>), whatever the concept extractor returns.
\<close>

theorem empty_text_node_count_is_NaN:
  "words (analyzeFresh ex bg now '''') = []
   \<and> scores (sentiment (analyzeFresh ex bg now '''')) = zeroScores
   \<and> intensity (sentiment (analyzeFresh ex bg now '''')) = 0
   \<and> vocabularyDiversity (complexity (analyzeFresh ex bg now '''')) = Num 0
   \<and> sentenceComplexity (complexity (analyzeFresh ex bg now '''')) = Num 0
   \<and> conceptDensity (complexity (analyzeFresh ex bg now '''')) = Num 0
   \<and> emotionalComplexity (complexity (analyzeFresh ex bg now '''')) = NaN
   \<and> overallComplexity (complexity (analyzeFresh ex bg now '''')) = NaN
   \<and> stype (scalingStrategy (analyzeFresh ex bg now '''')) = micro_boost
   \<and> nodeCount (scalingStrategy (analyzeFresh ex bg now '''')) = NaN
   \<and> particleCount (scalingStrategy (analyzeFresh ex bg now '''')) = NaN
   \<and> nodeCount (scalingStrategy (analyzeFresh ex bg now '''')) \<noteq> Num 8"
proof -
  have cx: "complexity (analyzeFresh ex bg now '''') = ComplexityAnalyzer_analyze ''''"
    and st: "sentiment (analyzeFresh ex bg now '''') = analyzeSentiment ''''"
    and ws: "words (analyzeFresh ex bg now '''') = TextAnalyzer_tokenizeText ''''"
    by (simp_all add: analyzeFresh_def Let_def)
  have sc: "sentenceComplexity (ComplexityAnalyzer_analyze '''') = Num 0"
    by (simp add: ComplexityAnalyzer_analyze_def Let_def sentences_empty
        calculateSentenceComplexity_def)
  have ty: "stype (scalingStrategy (analyzeFresh ex bg now '''')) = micro_boost"
    by (simp add: analyzeFresh_def Let_def tokens_empty determineScalingStrategy_def
        selectThreshold_def SCALING_THRESHOLDS_def MICRO_TINY_def)
  show ?thesis
    using overallComplexity_no_words [OF tokens_empty(1)]
      degenerate_text_node_count_NaN [OF tokens_empty(1), of ex bg now]
    by (simp add: cx st ws sc ty tokens_empty sentiment_empty)
qed

text \<open>
  The same for punctuation only (where \<open>TextAnalyzer\<close> even counts one word) and for
  white space only.
\<close>

lemma punctuation_text_node_count_is_NaN:
  "words (analyzeFresh ex bg now ''!!!'') = [''!!!'']
   \<and> nodeCount (scalingStrategy (analyzeFresh ex bg now ''!!!'')) = NaN"
  using degenerate_text_node_count_NaN(1) [OF tokens_punctuation(1), of ex bg now]
  by (simp add: analyzeFresh_def Let_def tokens_punctuation)

lemma blank_text_node_count_is_NaN:
  "words (analyzeFresh ex bg now ''   '') = []
   \<and> nodeCount (scalingStrategy (analyzeFresh ex bg now ''   '')) = NaN"
  using degenerate_text_node_count_NaN(1) [OF tokens_blank(1), of ex bg now]
  by (simp add: analyzeFresh_def Let_def tokens_blank)

section \<open>Properties of the structure generator\<close>

lemma length_slice_from_zero:
  "length (slice xs (Num 0) (Num (real n))) = min n (length xs)"
  by (simp add: slice_def relIndex_def Let_def)

lemma slice_NaN: "slice xs (Num 0) NaN = []"
  by (simp add: slice_def relIndex_def Let_def)

text \<open>
  When the node count is a natural number, the node list has exactly that length: the
  synthetic nodes fill a shortfall, the final slice cuts an excess.
\<close>

lemma generateNodes_exact_count:
  assumes "nodeCount (scalingStrategy ar) = Num (real n)"
  shows "\<exists>nodes. generateNodes ar suffix rnd = Some nodes \<and> length nodes = n"
proof -
  define base where "base = conceptAndEmotionNodes ar suffix"
  show ?thesis
  proof (cases "length base < n")
    case True
    then have up: "nat \<lceil>real n - real (length base)\<rceil> = n - length base"
      by (simp add: of_nat_diff [symmetric] del: of_nat_diff)
    from True have "generateNodes ar suffix rnd =
        Some (slice (base @ map (\<lambda>i. createSyntheticNode i (suffix (length base + i)) (rnd i))
                              [0..<n - length base]) (Num 0) (Num (real n)))"
      using assms
      by (simp add: generateNodes_def Let_def base_def [symmetric] jsub_def
          generateSyntheticNodes_def up)
    then show ?thesis
      using True by (simp add: length_slice_from_zero)
  next
    case False
    then have "generateNodes ar suffix rnd = Some (slice base (Num 0) (Num (real n)))"
      using assms by (simp add: generateNodes_def Let_def base_def [symmetric] jsub_def)
    then show ?thesis
      using False by (simp add: length_slice_from_zero)
  qed
qed

lemma generateNodes_NaN:
  assumes "nodeCount (scalingStrategy ar) = NaN"
  shows "generateNodes ar suffix rnd = Some []"
  using assms by (simp add: generateNodes_def Let_def jsub_def slice_NaN)

text \<open>
  Claim C3 states that for every input the node list has exactly
  \<open>scalingStrategy.nodeCount\<close> elements. For the analysis of the empty text the node
  count is \<open>NaN\<close> (see C2): \<open>remainingCount > 0\<close> is false, \<open>slice (0, NaN)\<close> is empty,
  and the node list has length 0, which is not the node count.
\<close>

theorem empty_text_node_list_differs_from_node_count:
  "\<exists>nodes. generateNodes (analyzeFresh ex bg now '''') suffix rnd = Some nodes
     \<and> length nodes = 0
     \<and> nodeCount (scalingStrategy (analyzeFresh ex bg now '''')) = NaN
     \<and> nodeCount (scalingStrategy (analyzeFresh ex bg now '''')) \<noteq> Num (real (length nodes))"
  using degenerate_text_node_count_NaN(1) [OF tokens_empty(1), of ex bg now]
  by (simp add: generateNodes_NaN)

lemma connectionOfEdge_endpoints:
  assumes "c \<in> set (connectionOfEdge nodes edge)"
  shows "(\<exists>n\<in>set nodes. node_id n = source c) \<and> (\<exists>n\<in>set nodes. node_id n = target c)"
proof (cases "find (\<lambda>n. data_word n = edge_source edge) nodes")
  case None
  with assms show ?thesis by (simp add: connectionOfEdge_def)
next
  case (Some s)
  note src = this
  show ?thesis
  proof (cases "find (\<lambda>n. data_word n = edge_target edge) nodes")
    case None
    with assms src show ?thesis by (simp add: connectionOfEdge_def)
  next
    case (Some t)
    from src have "s \<in> set nodes" by (auto simp: find_Some_iff)
    moreover from Some have "t \<in> set nodes" by (auto simp: find_Some_iff)
    moreover from assms src Some have "source c = node_id s" "target c = node_id t"
      by (simp_all add: connectionOfEdge_def)
    ultimately show ?thesis by auto
  qed
qed

text \<open>
  Claim C6. Every connection produced by \<open>generateVisualization\<close> has a source id and a
  target id that are ids of nodes of the final node list.
\<close>

theorem connection_endpoints_are_generated_nodes:
  assumes "generateVisualization ar suffix rnd = Some (nodes, conns)" "c \<in> set conns"
  shows "(\<exists>n\<in>set nodes. node_id n = source c) \<and> (\<exists>n\<in>set nodes. node_id n = target c)"
proof -
  from assms(1) have "conns = generateConnections ar nodes"
    by (auto simp: generateVisualization_def split: option.splits)
  with assms(2) obtain edge where "c \<in> set (connectionOfEdge nodes edge)"
    by (auto simp: generateConnections_def)
  then show ?thesis by (rule connectionOfEdge_endpoints)
qed

text \<open>The generator returns for every node count but \<open>Infinity\<close>.\<close>

lemma generateVisualization_returns:
  assumes "nodeCount (scalingStrategy ar) \<noteq> PosInf"
  shows "\<exists>nodes. generateVisualization ar suffix rnd = Some (nodes, generateConnections ar nodes)"
proof -
  define base where "base = conceptAndEmotionNodes ar suffix"
  define rc where "rc = jsub (nodeCount (scalingStrategy ar)) (Num (real (length base)))"
  have "rc \<noteq> PosInf"
    using assms unfolding rc_def by (cases "nodeCount (scalingStrategy ar)") (simp_all add: jsub_def)
  then obtain syn where "generateSyntheticNodes rc (length base) suffix rnd = Some syn"
    by (cases rc) (simp_all add: generateSyntheticNodes_def)
  then show ?thesis
    by (simp add: generateVisualization_def generateNodes_def Let_def base_def [symmetric]
        rc_def [symmetric])
qed

lemma mock_nodes:
  "conceptAndEmotionNodes mockAnalysisResult digits10 =
     [createNodeFromConcept
        \<lparr>word = ''love'', category = Cat_emotion, relevance = 0.9, frequency = 3,
          position = [0, 5, 10], connections = [''romeo'', ''juliet'']\<rparr> NConcept 1 ''0'',
      createNodeFromConcept
        \<lparr>word = ''romeo'', category = Cat_people, relevance = 0.8, frequency = 2,
          position = [0, 15], connections = [''love'', ''juliet'']\<rparr> NConcept 0.85 ''1'',
      createEmotionNode (sentiment mockAnalysisResult) 0.9 ''2'',
      createNodeFromConcept
        \<lparr>word = ''juliet'', category = Cat_people, relevance = 0.8, frequency = 2,
          position = [1, 20], connections = [''love'', ''romeo'']\<rparr> NConcept 0.7 ''3'']"
  by (simp add: conceptAndEmotionNodes_def mockAnalysisResult_def calculateNodeDistribution_def
      slice_def sliceFrom_def relIndex_def conceptNodes_def digit10_def Let_def)

lemma mock_generateNodes:
  "generateNodes mockAnalysisResult digits10 (\<lambda>i. 1 / 2) =
     Some (conceptAndEmotionNodes mockAnalysisResult digits10 @
       [createSyntheticNode 0 ''4'' (1 / 2), createSyntheticNode 1 ''5'' (1 / 2),
        createSyntheticNode 2 ''6'' (1 / 2), createSyntheticNode 3 ''7'' (1 / 2)])"
proof -
  have n: "nodeCount (scalingStrategy mockAnalysisResult) = Num 8"
    by (simp add: mockAnalysisResult_def)
  have l: "length (conceptAndEmotionNodes mockAnalysisResult digits10) = 4"
    by (simp add: mock_nodes)
  have u: "[0..<4] = [0, 1, 2, 3::nat]"
    by (simp add: upt_rec)
  show ?thesis
    by (simp add: generateNodes_def Let_def n l jsub_def generateSyntheticNodes_def u
        slice_def relIndex_def digit10_def)
qed

text \<open>
  The mock of the test suite: eight nodes, and the edge from \<open>love\<close> to \<open>romeo\<close> becomes
  one connection between the two concept nodes.
\<close>

theorem connection_endpoints_are_generated_nodes_witness:
  "\<exists>nodes conns.
     generateVisualization mockAnalysisResult digits10 (\<lambda>i. 1 / 2) = Some (nodes, conns)
     \<and> length nodes = 8
     \<and> map source conns = [''concept_love_0'']
     \<and> map target conns = [''concept_romeo_1'']
     \<and> (\<exists>n\<in>set nodes. node_id n = ''concept_love_0'')
     \<and> (\<exists>n\<in>set nodes. node_id n = ''concept_romeo_1'')"
proof -
  define nodes where "nodes = conceptAndEmotionNodes mockAnalysisResult digits10 @
       [createSyntheticNode 0 ''4'' (1 / 2), createSyntheticNode 1 ''5'' (1 / 2),
        createSyntheticNode 2 ''6'' (1 / 2), createSyntheticNode 3 ''7'' (1 / 2)]"
  define c where "c =
     \<lparr>conn_id = ''conn_concept_love_0_concept_romeo_1'', source = ''concept_love_0'',
      target = ''concept_romeo_1'', conn_weight = 0.7, conn_type = Conn_semantic,
      active = True, flow = 0.7\<rparr>"
  have conns: "generateConnections mockAnalysisResult nodes = [c]"
    unfolding nodes_def mock_nodes
    by (simp add: generateConnections_def connectionOfEdge_def mockAnalysisResult_def
        createNodeFromConcept_def createEmotionNode_def createSyntheticNode_def c_def)
  have vis: "generateVisualization mockAnalysisResult digits10 (\<lambda>i. 1 / 2) = Some (nodes, [c])"
    unfolding generateVisualization_def mock_generateNodes nodes_def [symmetric]
    by (simp add: conns)
  have len: "length nodes = 8"
    by (simp add: nodes_def mock_nodes)
  have "(\<exists>n\<in>set nodes. node_id n = source c) \<and> (\<exists>n\<in>set nodes. node_id n = target c)"
    using connection_endpoints_are_generated_nodes [OF vis, of c] by simp
  then have "(\<exists>n\<in>set nodes. node_id n = ''concept_love_0'')
       \<and> (\<exists>n\<in>set nodes. node_id n = ''concept_romeo_1'')"
    by (simp add: c_def)
  with vis len show ?thesis
    by (intro exI [of _ nodes] exI [of _ "[c]"]) (simp add: c_def)
qed

section \<open>The cache key\<close>

lemma hashValue_Aa_BB: "hashValue ''Aa'' = 2112" "hashValue ''BB'' = 2112"
  by (simp_all add: hashValue_def hashStep_def charCodeAt_def)

lemma hashText_Aa_BB: "hashText ''Aa'' = ''1mo''" "hashText ''BB'' = ''1mo''"
  by (simp_all add: hashText_def hashValue_Aa_BB toString36_def digit36_def)

lemma analyzeFresh_fields:
  "timestamp (analyzeFresh ex bg now text) = now"
  "words (analyzeFresh ex bg now text) = TextAnalyzer_tokenizeText text"
  by (simp_all add: analyzeFresh_def Let_def)

lemma words_Aa_BB:
  "TextAnalyzer_tokenizeText ''Aa'' = [''Aa'']" "TextAnalyzer_tokenizeText ''BB'' = [''BB'']"
  by (simp_all add: TextAnalyzer_tokenizeText_def trim_def splitOnSpaces_def isSpace_def
      charCodeAt_def)

text \<open>
  Claim C10. \<open>hashText\<close> is not injective: the distinct texts \<open>Aa\<close> and \<open>BB\<close> have
  the same key. So, with caching enabled, after an analysis of \<open>Aa\<close> (whose entry the
  cleanup keeps, the cleanup running less than ten minutes after the timestamp), the
  analysis of \<open>BB\<close> returns the result cached for \<open>Aa\<close>, whose words are those of \<open>Aa\<close>.
\<close>

theorem hash_collision_returns_other_cached_result:
  assumes "tclean - 600000 \<le> tstamp"
  shows "''Aa'' \<noteq> ''BB'' \<and> hashText ''Aa'' = hashText ''BB''
         \<and> (\<exists>r1 c1 c2.
               TextAnalyzer_analyze ex bg tstamp tclean ''Aa'' True [] = (r1, c1)
               \<and> TextAnalyzer_analyze ex bg tstamp2 tclean2 ''BB'' True c1 = (r1, c2)
               \<and> r1 = analyzeFresh ex bg tstamp ''Aa''
               \<and> words r1 = [''Aa'']
               \<and> words (analyzeFresh ex bg tstamp2 ''BB'') = [''BB''])"
proof -
  define r1 where "r1 = analyzeFresh ex bg tstamp ''Aa''"
  have h: "hashText ''Aa'' = hashText ''BB''"
    by (simp add: hashText_def hashValue_Aa_BB)
  have ts: "timestamp r1 = tstamp"
    by (simp add: r1_def analyzeFresh_fields)
  have clean: "cleanupCache tclean [(hashText ''Aa'', r1)] = [(hashText ''Aa'', r1)]"
    using assms by (simp add: cleanupCache_def Let_def ts)
  have first: "TextAnalyzer_analyze ex bg tstamp tclean ''Aa'' True []
      = (r1, [(hashText ''Aa'', r1)])"
    by (simp add: TextAnalyzer_analyze_def Let_def r1_def [symmetric] clean)
  have second: "TextAnalyzer_analyze ex bg tstamp2 tclean2 ''BB'' True [(hashText ''Aa'', r1)]
      = (r1, [(hashText ''Aa'', r1)])"
    by (simp add: TextAnalyzer_analyze_def Let_def h)
  have w: "words r1 = [''Aa'']" "words (analyzeFresh ex bg tstamp2 ''BB'') = [''BB'']"
    by (simp_all add: r1_def analyzeFresh_fields words_Aa_BB)
  show ?thesis
    using h first second w r1_def by auto
qed

theorem hash_collision_returns_other_cached_result_witness:
  "(1001::int) - 600000 \<le> 1000
   \<and> hashText ''Aa'' = ''1mo'' \<and> hashText ''BB'' = ''1mo''
   \<and> (\<exists>r1 c1 c2.
         TextAnalyzer_analyze (\<lambda>text. []) (\<lambda>cs. []) 1000 1001 ''Aa'' True [] = (r1, c1)
         \<and> TextAnalyzer_analyze (\<lambda>text. []) (\<lambda>cs. []) 2000 2001 ''BB'' True c1 = (r1, c2)
         \<and> words r1 = [''Aa''])"
proof -
  have "\<exists>r1 c1 c2.
         TextAnalyzer_analyze (\<lambda>text. []) (\<lambda>cs. []) 1000 1001 ''Aa'' True [] = (r1, c1)
         \<and> TextAnalyzer_analyze (\<lambda>text. []) (\<lambda>cs. []) 2000 2001 ''BB'' True c1 = (r1, c2)
         \<and> words r1 = [''Aa'']"
    using hash_collision_returns_other_cached_result
      [of 1001 1000 "\<lambda>text. []" "\<lambda>cs. []" 2000 2001]
    by auto
  then show ?thesis
    by (simp add: hashText_Aa_BB)
qed

end
